theory Spec2Isabelle
  imports Complex_Main
begin

section \<open>Numbers\<close>

text \<open>
  The statistics engine of \<^verbatim>\<open>src/app/page.tsx\<close> computes on JavaScript numbers.
  The model keeps what the engine's control flow depends on: the three special values
  and the rules by which they arise and propagate (division by zero, the square root
  and the logarithm of a negative number, \<^verbatim>\<open>Infinity - Infinity\<close>, comparisons with
  \<^verbatim>\<open>NaN\<close>). Finite arithmetic is exact arithmetic on the reals: there is no rounding,
  no overflow to an infinity, and zero carries no sign (a zero divisor counts as \<^verbatim>\<open>+0\<close>).
  A decimal literal of the source stands for the rational it denotes.
\<close>

datatype jsnum = Fin real | PInf | NInf | NaN

instantiation jsnum :: "{plus, uminus, minus, times, inverse, ord}"
begin

fun plus_jsnum :: "jsnum \<Rightarrow> jsnum \<Rightarrow> jsnum" where
  "plus_jsnum NaN y = NaN"
| "plus_jsnum x NaN = NaN"
| "plus_jsnum PInf NInf = NaN"
| "plus_jsnum NInf PInf = NaN"
| "plus_jsnum PInf y = PInf"
| "plus_jsnum x PInf = PInf"
| "plus_jsnum NInf y = NInf"
| "plus_jsnum x NInf = NInf"
| "plus_jsnum (Fin x) (Fin y) = Fin (x + y)"

fun uminus_jsnum :: "jsnum \<Rightarrow> jsnum" where
  "uminus_jsnum NaN = NaN"
| "uminus_jsnum PInf = NInf"
| "uminus_jsnum NInf = PInf"
| "uminus_jsnum (Fin x) = Fin (- x)"

definition minus_jsnum :: "jsnum \<Rightarrow> jsnum \<Rightarrow> jsnum" where
  "minus_jsnum x y = x + (- y)"

fun times_jsnum :: "jsnum \<Rightarrow> jsnum \<Rightarrow> jsnum" where
  "times_jsnum NaN y = NaN"
| "times_jsnum x NaN = NaN"
| "times_jsnum (Fin x) (Fin y) = Fin (x * y)"
| "times_jsnum (Fin x) PInf = (if x = 0 then NaN else if 0 < x then PInf else NInf)"
| "times_jsnum (Fin x) NInf = (if x = 0 then NaN else if 0 < x then NInf else PInf)"
| "times_jsnum PInf (Fin y) = (if y = 0 then NaN else if 0 < y then PInf else NInf)"
| "times_jsnum NInf (Fin y) = (if y = 0 then NaN else if 0 < y then NInf else PInf)"
| "times_jsnum PInf PInf = PInf"
| "times_jsnum PInf NInf = NInf"
| "times_jsnum NInf PInf = NInf"
| "times_jsnum NInf NInf = PInf"

fun divide_jsnum :: "jsnum \<Rightarrow> jsnum \<Rightarrow> jsnum" where
  "divide_jsnum NaN y = NaN"
| "divide_jsnum x NaN = NaN"
| "divide_jsnum (Fin x) (Fin y) =
     (if y = 0 then (if x = 0 then NaN else if 0 < x then PInf else NInf)
      else Fin (x / y))"
| "divide_jsnum (Fin x) PInf = Fin 0"
| "divide_jsnum (Fin x) NInf = Fin 0"
| "divide_jsnum PInf (Fin y) = (if 0 \<le> y then PInf else NInf)"
| "divide_jsnum NInf (Fin y) = (if 0 \<le> y then NInf else PInf)"
| "divide_jsnum PInf PInf = NaN"
| "divide_jsnum PInf NInf = NaN"
| "divide_jsnum NInf PInf = NaN"
| "divide_jsnum NInf NInf = NaN"

definition inverse_jsnum :: "jsnum \<Rightarrow> jsnum" where
  "inverse_jsnum x = divide (Fin 1) x"

text \<open>The comparisons \<^verbatim>\<open><\<close> and \<^verbatim>\<open><=\<close>: false as soon as one side is \<^verbatim>\<open>NaN\<close>.\<close>

fun less_jsnum :: "jsnum \<Rightarrow> jsnum \<Rightarrow> bool" where
  "less_jsnum NaN y = False"
| "less_jsnum x NaN = False"
| "less_jsnum (Fin x) (Fin y) = (x < y)"
| "less_jsnum (Fin x) PInf = True"
| "less_jsnum NInf (Fin y) = True"
| "less_jsnum NInf PInf = True"
| "less_jsnum x NInf = False"
| "less_jsnum PInf y = False"

fun less_eq_jsnum :: "jsnum \<Rightarrow> jsnum \<Rightarrow> bool" where
  "less_eq_jsnum NaN y = False"
| "less_eq_jsnum x NaN = False"
| "less_eq_jsnum (Fin x) (Fin y) = (x \<le> y)"
| "less_eq_jsnum NInf y = True"
| "less_eq_jsnum x PInf = True"
| "less_eq_jsnum x NInf = False"
| "less_eq_jsnum PInf y = False"

instance ..

end

text \<open>\<^verbatim>\<open>x === y\<close> on numbers: \<^verbatim>\<open>NaN\<close> equals nothing, itself included.\<close>

definition strict_eq :: "jsnum \<Rightarrow> jsnum \<Rightarrow> bool" where
  "strict_eq x y = (x \<noteq> NaN \<and> y \<noteq> NaN \<and> x = y)"

text \<open>\<^verbatim>\<open>x || 0\<close> on a number: \<^verbatim>\<open>NaN\<close> and zero are falsy.\<close>

definition or_zero :: "jsnum \<Rightarrow> jsnum" where
  "or_zero x = (if x = NaN \<or> x = Fin 0 then Fin 0 else x)"

fun isFinite :: "jsnum \<Rightarrow> bool" where
  "isFinite (Fin x) = True"
| "isFinite PInf = False"
| "isFinite NInf = False"
| "isFinite NaN = False"

text \<open>\<^verbatim>\<open>x ** k\<close> for a literal exponent \<open>k\<close> (the source only squares).\<close>

fun js_pow :: "jsnum \<Rightarrow> nat \<Rightarrow> jsnum" where
  "js_pow x 0 = Fin 1"
| "js_pow x (Suc k) = x * js_pow x k"

fun Math_sqrt :: "jsnum \<Rightarrow> jsnum" where
  "Math_sqrt (Fin x) = (if x < 0 then NaN else Fin (sqrt x))"
| "Math_sqrt PInf = PInf"
| "Math_sqrt NInf = NaN"
| "Math_sqrt NaN = NaN"

fun Math_abs :: "jsnum \<Rightarrow> jsnum" where
  "Math_abs (Fin x) = Fin \<bar>x\<bar>"
| "Math_abs PInf = PInf"
| "Math_abs NInf = PInf"
| "Math_abs NaN = NaN"

fun Math_log :: "jsnum \<Rightarrow> jsnum" where
  "Math_log (Fin x) = (if x < 0 then NaN else if x = 0 then NInf else Fin (ln x))"
| "Math_log PInf = PInf"
| "Math_log NInf = NaN"
| "Math_log NaN = NaN"

fun Math_exp :: "jsnum \<Rightarrow> jsnum" where
  "Math_exp (Fin x) = Fin (exp x)"
| "Math_exp PInf = PInf"
| "Math_exp NInf = Fin 0"
| "Math_exp NaN = NaN"

fun Math_sin :: "jsnum \<Rightarrow> jsnum" where
  "Math_sin (Fin x) = Fin (sin x)"
| "Math_sin PInf = NaN"
| "Math_sin NInf = NaN"
| "Math_sin NaN = NaN"

fun Math_min :: "jsnum \<Rightarrow> jsnum \<Rightarrow> jsnum" where
  "Math_min NaN y = NaN"
| "Math_min x NaN = NaN"
| "Math_min x y = (if x \<le> y then x else y)"

fun Math_max :: "jsnum \<Rightarrow> jsnum \<Rightarrow> jsnum" where
  "Math_max NaN y = NaN"
| "Math_max x NaN = NaN"
| "Math_max x y = (if x \<le> y then y else x)"

text \<open>\<^verbatim>\<open>arr.length\<close> as a number.\<close>

definition len :: "'a list \<Rightarrow> jsnum" where
  "len arr = Fin (real (length arr))"

section \<open>Summary statistics\<close>

record NumericSummary =
  s_n :: jsnum
  s_mean :: jsnum
  s_sd :: jsnum
  s_se :: jsnum

definition mean :: "jsnum list \<Rightarrow> jsnum" where
  "mean arr = foldl (\<lambda>a b. a + b) (Fin 0) arr / len arr"

definition varianceSample :: "jsnum list \<Rightarrow> jsnum" where
  "varianceSample arr =
     (let m = mean arr
      in foldl (\<lambda>acc v. acc + js_pow (v - m) 2) (Fin 0) arr / (len arr - Fin 1))"

definition sd :: "jsnum list \<Rightarrow> jsnum" where
  "sd arr = Math_sqrt (varianceSample arr)"

definition summarize :: "jsnum list \<Rightarrow> NumericSummary" where
  "summarize arr =
     (let n = len arr;
          m = mean arr;
          s = sd arr;
          se = s / Math_sqrt n
      in \<lparr>s_n = n, s_mean = m, s_sd = s, s_se = se\<rparr>)"

definition clamp :: "jsnum \<Rightarrow> jsnum \<Rightarrow> jsnum \<Rightarrow> jsnum" where
  "clamp x lo hi = Math_max lo (Math_min hi x)"

section \<open>The Student t distribution\<close>

text \<open>The coefficient table \<^verbatim>\<open>p\<close> of \<^verbatim>\<open>logGamma\<close>.\<close>

definition lanczos_p :: "jsnum list" where
  "lanczos_p =
     [Fin 676.5203681218851,
      Fin (- 1259.1392167224028),
      Fin 771.3234287776531,
      Fin (- 176.6150291621406),
      Fin 12.507343278686905,
      Fin (- 0.13857109526572012),
      Fin (9.984369578019572 / 10 ^ 6),
      Fin (1.5056327351493116 / 10 ^ 7)]"

text \<open>
  The loop \<^verbatim>\<open>for (let i = 0; i < p.length; i++) x += p[i] / (z + i + 1)\<close>, from index
  \<open>i\<close> on, over the coefficients that are left.
\<close>

fun lanczos_loop :: "jsnum \<Rightarrow> nat \<Rightarrow> jsnum list \<Rightarrow> jsnum \<Rightarrow> jsnum" where
  "lanczos_loop z i [] x = x"
| "lanczos_loop z i (c # cs) x = lanczos_loop z (Suc i) cs (x + c / (z + Fin (real i) + Fin 1))"

function logGamma :: "jsnum \<Rightarrow> jsnum" where
  "logGamma z =
     (if z < Fin 0.5 then
        Math_log (Fin pi) - Math_log (Math_sin (Fin pi * z)) - logGamma (Fin 1 - z)
      else
        (let z1 = z - Fin 1;
             x = lanczos_loop z1 0 lanczos_p (Fin 0.9999999999998099);
             t = z1 + len lanczos_p - Fin 0.5
         in Fin 0.5 * Math_log (Fin 2 * Fin pi) + (z1 + Fin 0.5) * Math_log t - t + Math_log x))"
  by pat_completeness auto
termination
proof (relation "measure (\<lambda>z. if z < Fin 0.5 then 1 else 0)")
  show "wf (measure (\<lambda>z. if z < Fin 0.5 then 1 else 0))"
    by simp
next
  fix z :: jsnum
  assume "z < Fin 0.5"
  then have "\<not> (Fin 1 - z < Fin 0.5)"
    by (cases z) (simp_all add: minus_jsnum_def)
  with \<open>z < Fin 0.5\<close>
  show "(Fin 1 - z, z) \<in> measure (\<lambda>z. if z < Fin 0.5 then 1 else 0)"
    by simp
qed

declare logGamma.simps [simp del]

text \<open>The constants of \<^verbatim>\<open>betacf\<close>.\<close>

definition MAX_ITER :: nat where
  "MAX_ITER = 200"

definition EPS :: jsnum where
  "EPS = Fin (3 / 10 ^ 12)"

definition FPMIN :: jsnum where
  "FPMIN = Fin (1 / 10 ^ 30)"

text \<open>\<^verbatim>\<open>if (Math.abs(v) < FPMIN) v = FPMIN\<close>.\<close>

definition floor_FPMIN :: "jsnum \<Rightarrow> jsnum" where
  "floor_FPMIN v = (if Math_abs v < FPMIN then FPMIN else v)"

text \<open>
  One pass through the body of the loop of \<^verbatim>\<open>betacf\<close>, at iteration \<open>m\<close>: from the
  values of \<^verbatim>\<open>c\<close>, \<^verbatim>\<open>d\<close> and \<^verbatim>\<open>h\<close> before it to their values after it, with the last
  multiplier \<^verbatim>\<open>del\<close>.
\<close>

definition betacf_body ::
  "jsnum \<Rightarrow> jsnum \<Rightarrow> jsnum \<Rightarrow> nat \<Rightarrow> jsnum \<times> jsnum \<times> jsnum \<Rightarrow> jsnum \<times> jsnum \<times> jsnum \<times> jsnum" where
  "betacf_body a b x m cdh =
     (case cdh of (c, d, h) \<Rightarrow>
        let qab = a + b;
            qap = a + Fin 1;
            qam = a - Fin 1;
            mm = Fin (real m);
            m2 = Fin 2 * mm;
            aa = (mm * (b - mm) * x) / ((qam + m2) * (a + m2));
            d1 = floor_FPMIN (Fin 1 + aa * d);
            c1 = floor_FPMIN (Fin 1 + aa / c);
            d2 = Fin 1 / d1;
            h1 = h * (d2 * c1);
            aa' = (- (a + mm) * (qab + mm) * x) / ((a + m2) * (qap + m2));
            d3 = floor_FPMIN (Fin 1 + aa' * d2);
            c2 = floor_FPMIN (Fin 1 + aa' / c1);
            d4 = Fin 1 / d3;
            del = d4 * c2;
            h2 = h1 * del
        in (c2, d4, h2, del))"

text \<open>
  The loop \<^verbatim>\<open>for (let m = 1; m <= MAX_ITER; m++) { ...; if (Math.abs(del - 1) < EPS) break; }\<close>
  from iteration \<open>m\<close> on. It returns \<^verbatim>\<open>h\<close> and, beside it, the number of passes through
  the body that were made in all (a count the source does not keep).
\<close>

function betacf_loop ::
  "jsnum \<Rightarrow> jsnum \<Rightarrow> jsnum \<Rightarrow> nat \<Rightarrow> jsnum \<times> jsnum \<times> jsnum \<Rightarrow> jsnum \<times> nat" where
  "betacf_loop a b x m cdh =
     (if m \<le> MAX_ITER then
        (case betacf_body a b x m cdh of (c, d, h, del) \<Rightarrow>
           if Math_abs (del - Fin 1) < EPS then (h, m)
           else betacf_loop a b x (Suc m) (c, d, h))
      else (snd (snd cdh), m - 1))"
  by pat_completeness auto
termination
  by (relation "measure (\<lambda>(a, b, x, m, cdh). Suc MAX_ITER - m)") auto

declare betacf_loop.simps [simp del]

definition betacf_run :: "jsnum \<Rightarrow> jsnum \<Rightarrow> jsnum \<Rightarrow> jsnum \<times> nat" where
  "betacf_run a b x =
     (let qab = a + b;
          qap = a + Fin 1;
          c = Fin 1;
          d = floor_FPMIN (Fin 1 - (qab * x) / qap);
          d1 = Fin 1 / d;
          h = d1
      in betacf_loop a b x 1 (c, d1, h))"

definition betacf :: "jsnum \<Rightarrow> jsnum \<Rightarrow> jsnum \<Rightarrow> jsnum" where
  "betacf a b x = fst (betacf_run a b x)"

definition regIncompleteBeta :: "jsnum \<Rightarrow> jsnum \<Rightarrow> jsnum \<Rightarrow> jsnum" where
  "regIncompleteBeta a b x =
     (let xx = clamp x (Fin 0) (Fin 1)
      in if strict_eq xx (Fin 0) then Fin 0
         else if strict_eq xx (Fin 1) then Fin 1
         else
           (let bt = or_zero (Math_exp (logGamma (a + b) - logGamma a - logGamma b
                                + a * Math_log xx + b * Math_log (Fin 1 - xx)))
            in if xx < (a + Fin 1) / (a + b + Fin 2) then (bt * betacf a b xx) / a
               else Fin 1 - (bt * betacf b a (Fin 1 - xx)) / b))"

definition studentTCdf :: "jsnum \<Rightarrow> jsnum \<Rightarrow> jsnum" where
  "studentTCdf t df =
     (let x = df / (df + t * t);
          a = df / Fin 2;
          b = Fin 0.5;
          ib = regIncompleteBeta a b x
      in if Fin 0 \<le> t then Fin 1 - Fin 0.5 * ib else Fin 0.5 * ib)"

definition pTwoSidedFromT :: "jsnum \<Rightarrow> jsnum \<Rightarrow> jsnum" where
  "pTwoSidedFromT t df =
     (let cdf = studentTCdf (Math_abs t) df
      in clamp (Fin 2 * (Fin 1 - cdf)) (Fin 0) (Fin 1))"

section \<open>The four analyses\<close>

text \<open>
  \<^verbatim>\<open>a.map((v, i) => v - b[i])\<close>: past the end of \<^verbatim>\<open>b\<close> the read is \<^verbatim>\<open>undefined\<close>,
  and the difference is \<^verbatim>\<open>NaN\<close>.
\<close>

fun diffs :: "jsnum list \<Rightarrow> jsnum list \<Rightarrow> jsnum list" where
  "diffs [] b = []"
| "diffs (v # a) [] = NaN # diffs a []"
| "diffs (v # a) (w # b) = (v - w) # diffs a b"

record paired_result =
  paired_t :: jsnum
  paired_df :: jsnum
  paired_p :: jsnum
  paired_d :: jsnum

definition pairedTTest :: "jsnum list \<Rightarrow> jsnum list \<Rightarrow> paired_result" where
  "pairedTTest a b =
     (let s = summarize (diffs a b);
          t = s_mean s / (s_sd s / Math_sqrt (s_n s));
          df = s_n s - Fin 1;
          p = pTwoSidedFromT t df;
          d = s_mean s / s_sd s
      in \<lparr>paired_t = t, paired_df = df, paired_p = p, paired_d = d\<rparr>)"

record onesample_result =
  onesample_t :: jsnum
  onesample_df :: jsnum
  onesample_p :: jsnum
  onesample_d :: jsnum
  onesample_s :: NumericSummary

definition oneSampleT :: "jsnum list \<Rightarrow> jsnum \<Rightarrow> onesample_result" where
  "oneSampleT arr mu =
     (let s = summarize arr;
          t = (s_mean s - mu) / (s_sd s / Math_sqrt (s_n s));
          df = s_n s - Fin 1;
          p = pTwoSidedFromT t df;
          d = (s_mean s - mu) / s_sd s
      in \<lparr>onesample_t = t, onesample_df = df, onesample_p = p, onesample_d = d,
          onesample_s = s\<rparr>)"

record welch_result =
  welch_t :: jsnum
  welch_df :: jsnum
  welch_p :: jsnum
  welch_g :: jsnum
  welch_sa :: NumericSummary
  welch_sb :: NumericSummary

definition welchTTest :: "jsnum list \<Rightarrow> jsnum list \<Rightarrow> welch_result" where
  "welchTTest a b =
     (let sa = summarize a;
          sb = summarize b;
          va = js_pow (s_sd sa) 2;
          vb = js_pow (s_sd sb) 2;
          t = (s_mean sa - s_mean sb) / Math_sqrt (va / s_n sa + vb / s_n sb);
          num = js_pow (va / s_n sa + vb / s_n sb) 2;
          den = js_pow va 2 / (js_pow (s_n sa) 2 * (s_n sa - Fin 1))
              + js_pow vb 2 / (js_pow (s_n sb) 2 * (s_n sb - Fin 1));
          df = num / den;
          p = pTwoSidedFromT t df;
          sp = Math_sqrt (((s_n sa - Fin 1) * va + (s_n sb - Fin 1) * vb)
                 / (s_n sa + s_n sb - Fin 2));
          d = (s_mean sa - s_mean sb) / sp;
          J = Fin 1 - Fin 3 / (Fin 4 * (s_n sa + s_n sb) - Fin 9);
          g = d * J
      in \<lparr>welch_t = t, welch_df = df, welch_p = p, welch_g = g, welch_sa = sa,
          welch_sb = sb\<rparr>)"

text \<open>
  The loop of \<^verbatim>\<open>pearsonCorrelation\<close> over the elements of \<^verbatim>\<open>x\<close> that are left, with
  the rest of \<^verbatim>\<open>y\<close> beside them; \<^verbatim>\<open>y[i]\<close> past the end of \<^verbatim>\<open>y\<close> is \<^verbatim>\<open>undefined\<close>,
  which the subtraction turns into \<^verbatim>\<open>NaN\<close>.
\<close>

fun pearson_loop ::
  "jsnum \<Rightarrow> jsnum \<Rightarrow> jsnum list \<Rightarrow> jsnum list \<Rightarrow> jsnum \<times> jsnum \<times> jsnum \<Rightarrow> jsnum \<times> jsnum \<times> jsnum" where
  "pearson_loop mx my [] y acc = acc"
| "pearson_loop mx my (xi # x) y (num, dx, dy) =
     (let vx = xi - mx;
          vy = (case y of [] \<Rightarrow> NaN | yi # _ \<Rightarrow> yi - my)
      in pearson_loop mx my x (tl y) (num + vx * vy, dx + vx * vx, dy + vy * vy))"

record pearson_result =
  pearson_r :: jsnum
  pearson_t :: jsnum
  pearson_df :: jsnum
  pearson_p :: jsnum

definition pearsonCorrelation :: "jsnum list \<Rightarrow> jsnum list \<Rightarrow> pearson_result" where
  "pearsonCorrelation x y =
     (let n = len x;
          mx = mean x;
          my = mean y
      in case pearson_loop mx my x y (Fin 0, Fin 0, Fin 0) of (num, dx, dy) \<Rightarrow>
        let r = num / Math_sqrt (dx * dy);
            df = n - Fin 2;
            t = r * Math_sqrt (df / (Fin 1 - r * r));
            p = pTwoSidedFromT t df
        in \<lparr>pearson_r = r, pearson_t = t, pearson_df = df, pearson_p = p\<rparr>)"

section \<open>The formulas the specification gives\<close>

text \<open>
  Section 4.1 of the specification, in its own words and on real numbers: the
  arithmetic mean, the sample variance with the denominator \<open>n - 1\<close>, and the standard
  deviation as its square root.
\<close>

definition spec_mean :: "real list \<Rightarrow> real" where
  "spec_mean xs = sum_list xs / real (length xs)"

definition spec_variance :: "real list \<Rightarrow> real" where
  "spec_variance xs = (\<Sum>x\<leftarrow>xs. (x - spec_mean xs)\<^sup>2) / (real (length xs) - 1)"

definition spec_sd :: "real list \<Rightarrow> real" where
  "spec_sd xs = sqrt (spec_variance xs)"

text \<open>
  Section 4.3 of the specification, in its own words: the statistic of Welch's test, the
  Welch-Satterthwaite degrees of freedom, the pooled Cohen's d and the correction
  factor \<open>J\<close>, as functions of the means \<open>ma\<close>, \<open>mb\<close>, the standard deviations
  \<open>sa\<close>, \<open>sb\<close> and the sizes \<open>na\<close>, \<open>nb\<close> of the two groups.
\<close>

definition spec_welch_t ::
  "jsnum \<Rightarrow> jsnum \<Rightarrow> jsnum \<Rightarrow> jsnum \<Rightarrow> jsnum \<Rightarrow> jsnum \<Rightarrow> jsnum" where
  "spec_welch_t ma mb sa sb na nb =
     (ma - mb) / Math_sqrt (js_pow sa 2 / na + js_pow sb 2 / nb)"

definition spec_welch_df :: "jsnum \<Rightarrow> jsnum \<Rightarrow> jsnum \<Rightarrow> jsnum \<Rightarrow> jsnum" where
  "spec_welch_df sa sb na nb =
     js_pow (js_pow sa 2 / na + js_pow sb 2 / nb) 2
     / (js_pow sa 4 / (js_pow na 2 * (na - Fin 1))
        + js_pow sb 4 / (js_pow nb 2 * (nb - Fin 1)))"

definition spec_pooled_d ::
  "jsnum \<Rightarrow> jsnum \<Rightarrow> jsnum \<Rightarrow> jsnum \<Rightarrow> jsnum \<Rightarrow> jsnum \<Rightarrow> jsnum" where
  "spec_pooled_d ma mb sa sb na nb =
     (ma - mb)
     / Math_sqrt (((na - Fin 1) * js_pow sa 2 + (nb - Fin 1) * js_pow sb 2)
                  / (na + nb - Fin 2))"

definition spec_hedges_J :: "jsnum \<Rightarrow> jsnum \<Rightarrow> jsnum" where
  "spec_hedges_J na nb = Fin 1 - Fin 3 / (Fin 4 * (na + nb) - Fin 9)"

section \<open>Strings and the formatter\<close>

text \<open>
  Strings are lists of 8-bit characters, and white space is the white space of ASCII.
  Two built-in conversions of the JavaScript runtime are parameters of the model:
  \<^verbatim>\<open>Number(s)\<close>, from a string to a number, and the conversion of a number to a string
  that \<^verbatim>\<open>+\<close> applies to a number beside a string (and \<^verbatim>\<open>toFixed\<close> from \<open>10\<^sup>2\<^sup>1\<close> on).
\<close>

record runtime =
  rt_Number :: "string \<Rightarrow> jsnum"
  rt_ToString :: "jsnum \<Rightarrow> string"

definition is_ws :: "char \<Rightarrow> bool" where
  "is_ws c = (c \<in> {CHR '' '', CHR 0x09, CHR 0x0A, CHR 0x0B, CHR 0x0C, CHR 0x0D})"

definition trim :: "string \<Rightarrow> string" where
  "trim s = rev (dropWhile is_ws (rev (dropWhile is_ws s)))"

text \<open>\<^verbatim>\<open>s.split(/\s+/)\<close>.\<close>

function split_ws :: "string \<Rightarrow> string list" where
  "split_ws s =
     (let w = takeWhile (\<lambda>c. \<not> is_ws c) s;
          rest = dropWhile (\<lambda>c. \<not> is_ws c) s
      in if rest = [] then [w] else w # split_ws (dropWhile is_ws rest))"
  by pat_completeness auto
termination
proof (relation "measure length")
  show "wf (measure length)"
    by simp
next
  fix s w rest
  assume rest: "rest = dropWhile (\<lambda>c. \<not> is_ws c) s" and ne: "rest \<noteq> []"
  from ne have "is_ws (hd rest)"
    unfolding rest using hd_dropWhile[of "\<lambda>c. \<not> is_ws c" s] by simp
  with ne have "length (dropWhile is_ws rest) < length rest"
    by (cases rest) (simp_all add: less_Suc_eq_le length_dropWhile_le)
  also have "length rest \<le> length s"
    unfolding rest by (rule length_dropWhile_le)
  finally show "(dropWhile is_ws rest, s) \<in> measure length"
    by simp
qed

declare split_ws.simps [simp del]

text \<open>\<^verbatim>\<open>toUpperCase\<close> and \<^verbatim>\<open>toLowerCase\<close>, on the letters of ASCII.\<close>

definition to_upper :: "char \<Rightarrow> char" where
  "to_upper c =
     (let k = (of_char c :: nat) in if 97 \<le> k \<and> k \<le> 122 then char_of (k - 32) else c)"

definition to_lower :: "char \<Rightarrow> char" where
  "to_lower c =
     (let k = (of_char c :: nat) in if 65 \<le> k \<and> k \<le> 90 then char_of (k + 32) else c)"

text \<open>\<^verbatim>\<open>words.join(" ")\<close>.\<close>

fun join_sp :: "string list \<Rightarrow> string" where
  "join_sp [] = []"
| "join_sp [w] = w"
| "join_sp (w # ws) = w @ '' '' @ join_sp ws"

definition titleCase :: "string \<Rightarrow> string" where
  "titleCase s =
     join_sp (map (\<lambda>w. case w of [] \<Rightarrow> w | c # cs \<Rightarrow> to_upper c # map to_lower cs)
                  (split_ws s))"

text \<open>The decimal digits of a natural number, without leading zeros.\<close>

definition digit :: "nat \<Rightarrow> char" where
  "digit k = ''0123456789'' ! k"

function decimal :: "nat \<Rightarrow> string" where
  "decimal n = (if n < 10 then [digit n] else decimal (n div 10) @ [digit (n mod 10)])"
  by pat_completeness auto
termination
  by (relation "measure id") auto

declare decimal.simps [simp del]

text \<open>
  \<^verbatim>\<open>x.toFixed(f)\<close>, as ECMAScript defines it: the name of a value that is not finite; below
  \<open>10\<^sup>2\<^sup>1\<close> in magnitude, the integer \<open>n\<close> nearest to \<open>|x| * 10\<^sup>f\<close> (the larger one
  of two), written in decimal with at least \<open>f + 1\<close> digits and a point before the last
  \<open>f\<close> of them, after the sign of a negative \<open>x\<close>; from \<open>10\<^sup>2\<^sup>1\<close> on, the runtime's
  conversion of \<open>|x|\<close> to a string, after the same sign.
\<close>

definition toFixed :: "runtime \<Rightarrow> jsnum \<Rightarrow> nat \<Rightarrow> string" where
  "toFixed rt x f =
     (case x of
        NaN \<Rightarrow> ''NaN''
      | PInf \<Rightarrow> ''Infinity''
      | NInf \<Rightarrow> ''-Infinity''
      | Fin r \<Rightarrow>
          (let s = (if r < 0 then ''-'' else []);
               x' = \<bar>r\<bar>
           in if 10 ^ 21 \<le> x' then s @ rt_ToString rt (Fin x')
              else
                (let n = nat \<lfloor>x' * 10 ^ f + 1 / 2\<rfloor>;
                     m = decimal n
                 in if f = 0 then s @ m
                    else
                      (let m0 = (if length m \<le> f
                                 then replicate (f + 1 - length m) CHR ''0'' @ m else m);
                           k = length m0
                       in s @ take (k - f) m0 @ ''.'' @ drop (k - f) m0))))"

text \<open>\<^verbatim>\<open>fmt\<close> and \<^verbatim>\<open>fmtP\<close> of the page component.\<close>

definition fmt :: "runtime \<Rightarrow> jsnum \<Rightarrow> string" where
  "fmt rt x = (if isFinite x then toFixed rt x 2 else ''NA'')"

text \<open>\<^verbatim>\<open>s.replace(/^0/, "")\<close>.\<close>

definition replace_leading_0 :: "string \<Rightarrow> string" where
  "replace_leading_0 s = (case s of [] \<Rightarrow> [] | c # cs \<Rightarrow> if c = CHR ''0'' then cs else s)"

definition fmtP :: "runtime \<Rightarrow> jsnum \<Rightarrow> string" where
  "fmtP rt p =
     (if \<not> isFinite p then ''NA''
      else if p < Fin 0.001 then ''< .001''
      else replace_leading_0 (toFixed rt p 3))"

section \<open>The page component: from the loaded rows to the result\<close>

text \<open>
  A row of the parsed CSV is a \<^verbatim>\<open>Record<string, string>\<close>; \<^verbatim>\<open>r[col] ?? ""\<close> reads a cell.
\<close>

type_synonym row = "string \<Rightarrow> string option"

definition cell :: "row \<Rightarrow> string \<Rightarrow> string" where
  "cell r col = (case r col of None \<Rightarrow> [] | Some v \<Rightarrow> v)"

definition toNumberMaybe :: "runtime \<Rightarrow> string \<Rightarrow> jsnum option" where
  "toNumberMaybe rt v =
     (let s = trim v
      in if s = [] then None
         else (let n = rt_Number rt s in if isFinite n then Some n else None))"

datatype AnalysisType = A_paired | A_onesample | A_independent | A_correlation

text \<open>The state of the component that \<^verbatim>\<open>output\<close> depends on.\<close>

record page_state =
  rows :: "row list"
  analysis :: AnalysisType
  pairedA :: string
  pairedB :: string
  oneVar :: string
  oneMu :: string
  groupOutcome :: string
  groupVar :: string
  groupA :: string
  groupB :: string
  corrX :: string
  corrY :: string

definition getVector :: "runtime \<Rightarrow> row list \<Rightarrow> string \<Rightarrow> jsnum list" where
  "getVector rt rs col = List.map_filter (\<lambda>r. toNumberMaybe rt (cell r col)) rs"

text \<open>The \<^verbatim>\<open>rows.forEach\<close> of \<^verbatim>\<open>getPaired\<close>, pushing onto \<^verbatim>\<open>a\<close> and \<^verbatim>\<open>b\<close>.\<close>

definition getPaired :: "runtime \<Rightarrow> row list \<Rightarrow> string \<Rightarrow> string \<Rightarrow> jsnum list \<times> jsnum list" where
  "getPaired rt rs aCol bCol =
     foldl (\<lambda>(a, b) r.
              case (toNumberMaybe rt (cell r aCol), toNumberMaybe rt (cell r bCol)) of
                (Some va, Some vb) \<Rightarrow> (a @ [va], b @ [vb])
              | _ \<Rightarrow> (a, b))
           ([], []) rs"

definition getGrouped ::
  "runtime \<Rightarrow> row list \<Rightarrow> string \<Rightarrow> string \<Rightarrow> string \<Rightarrow> string \<Rightarrow> jsnum list \<times> jsnum list" where
  "getGrouped rt rs outcome gVar A B =
     foldl (\<lambda>(a, b) r.
              let g = trim (cell r gVar)
              in case toNumberMaybe rt (cell r outcome) of
                   None \<Rightarrow> (a, b)
                 | Some v \<Rightarrow> (if g = A then a @ [v] else a, if g = B then b @ [v] else b))
           ([], []) rs"

text \<open>The points \<^verbatim>\<open>pts\<close> of the correlation branch.\<close>

definition getPoints :: "runtime \<Rightarrow> row list \<Rightarrow> string \<Rightarrow> string \<Rightarrow> (jsnum \<times> jsnum) list" where
  "getPoints rt rs xCol yCol =
     foldl (\<lambda>pts r.
              case (toNumberMaybe rt (cell r xCol), toNumberMaybe rt (cell r yCol)) of
                (Some x, Some y) \<Rightarrow> pts @ [(x, y)]
              | _ \<Rightarrow> pts)
           [] rs"

record bar =
  bar_name :: string
  bar_Mean :: jsnum
  bar_SE :: jsnum

text \<open>
  What \<^verbatim>\<open>output\<close> holds: \<^verbatim>\<open>null\<close>, one of the four results (with its chart data and
  its sentence \<^verbatim>\<open>apa\<close>), or \<^verbatim>\<open>{ kind: "error", message }\<close>.
\<close>

datatype output_value =
    Null
  | Kind_paired "bar list" string
  | Kind_onesample string
  | Kind_independent "bar list" string
  | Kind_correlation "(jsnum \<times> jsnum) list" string
  | Kind_error string

text \<open>The sentence \<^verbatim>\<open>apa\<close> of each branch.\<close>

definition apa_paired ::
  "runtime \<Rightarrow> string \<Rightarrow> string \<Rightarrow> NumericSummary \<Rightarrow> NumericSummary \<Rightarrow> paired_result \<Rightarrow> string" where
  "apa_paired rt nameA nameB sa sb res =
     ''A paired-samples t-test compared '' @ nameA
     @ '' (M = '' @ fmt rt (s_mean sa) @ '', SD = '' @ fmt rt (s_sd sa)
     @ '') and '' @ nameB
     @ '' (M = '' @ fmt rt (s_mean sb) @ '', SD = '' @ fmt rt (s_sd sb)
     @ ''). The analysis yielded t('' @ rt_ToString rt (paired_df res)
     @ '') = '' @ toFixed rt (paired_t res) 2
     @ '', p = '' @ fmtP rt (paired_p res)
     @ '', d = '' @ toFixed rt (paired_d res) 2 @ ''.''"

definition apa_onesample :: "runtime \<Rightarrow> string \<Rightarrow> jsnum \<Rightarrow> onesample_result \<Rightarrow> string" where
  "apa_onesample rt name mu res =
     ''A one-sample t-test evaluated whether '' @ name
     @ '' differed from '' @ rt_ToString rt mu
     @ ''. The analysis yielded t('' @ rt_ToString rt (onesample_df res)
     @ '') = '' @ toFixed rt (onesample_t res) 2
     @ '', p = '' @ fmtP rt (onesample_p res)
     @ '', d = '' @ toFixed rt (onesample_d res) 2 @ ''.''"

definition apa_independent ::
  "runtime \<Rightarrow> string \<Rightarrow> string \<Rightarrow> string \<Rightarrow> welch_result \<Rightarrow> string" where
  "apa_independent rt outcome A B res =
     ''An independent-samples t-test (Welch) compared '' @ outcome
     @ '' between '' @ titleCase A
     @ '' (M = '' @ fmt rt (s_mean (welch_sa res)) @ '', SD = '' @ fmt rt (s_sd (welch_sa res))
     @ '') and '' @ titleCase B
     @ '' (M = '' @ fmt rt (s_mean (welch_sb res)) @ '', SD = '' @ fmt rt (s_sd (welch_sb res))
     @ ''). The analysis yielded t('' @ toFixed rt (welch_df res) 1
     @ '') = '' @ toFixed rt (welch_t res) 2
     @ '', p = '' @ fmtP rt (welch_p res)
     @ '', g = '' @ toFixed rt (welch_g res) 2 @ ''.''"

definition apa_correlation :: "runtime \<Rightarrow> string \<Rightarrow> string \<Rightarrow> pearson_result \<Rightarrow> string" where
  "apa_correlation rt xName yName res =
     ''A Pearson correlation examined the association between '' @ xName
     @ '' and '' @ yName
     @ ''. The correlation was r('' @ rt_ToString rt (pearson_df res)
     @ '') = '' @ toFixed rt (pearson_r res) 2
     @ '', p = '' @ fmtP rt (pearson_p res) @ ''.''"

text \<open>
  The body of the \<^verbatim>\<open>try\<close> block of \<^verbatim>\<open>output\<close>: \<open>Inl\<close> is the message of a thrown
  \<^verbatim>\<open>Error\<close>. The message of the third one starts with the Greek letter mu, here as its
  two bytes in UTF-8.
\<close>

definition output_try :: "runtime \<Rightarrow> page_state \<Rightarrow> string + output_value" where
  "output_try rt st =
     (case analysis st of
        A_paired \<Rightarrow>
          (case getPaired rt (rows st) (pairedA st) (pairedB st) of (a, b) \<Rightarrow>
             if length a < 3 then Inl ''Not enough paired rows.''
             else
               (let sa = summarize a;
                    sb = summarize b;
                    res = pairedTTest a b;
                    barData =
                      [\<lparr>bar_name = pairedA st, bar_Mean = s_mean sa, bar_SE = s_se sa\<rparr>,
                       \<lparr>bar_name = pairedB st, bar_Mean = s_mean sb, bar_SE = s_se sb\<rparr>]
                in Inr (Kind_paired barData (apa_paired rt (pairedA st) (pairedB st) sa sb res))))
      | A_onesample \<Rightarrow>
          (let vec = getVector rt (rows st) (oneVar st)
           in if length vec < 3 then Inl ''Not enough numeric rows.''
              else
                (let mu = rt_Number rt (oneMu st)
                 in if \<not> isFinite mu then Inl ([CHR 0xCE, CHR 0xBC] @ ''0 must be a number.'')
                    else
                      (let res = oneSampleT vec mu
                       in Inr (Kind_onesample (apa_onesample rt (oneVar st) mu res)))))
      | A_independent \<Rightarrow>
          if groupVar st = [] \<or> groupA st = [] \<or> groupB st = [] \<or> groupA st = groupB st
          then Inl ''Select two different groups.''
          else
            (case getGrouped rt (rows st) (groupOutcome st) (groupVar st) (groupA st) (groupB st)
             of (a, b) \<Rightarrow>
               if length a < 2 \<or> length b < 2
               then Inl ''Each group needs at least 2 observations.''
               else
                 (let res = welchTTest a b;
                      barData =
                        [\<lparr>bar_name = groupA st, bar_Mean = s_mean (welch_sa res),
                          bar_SE = s_se (welch_sa res)\<rparr>,
                         \<lparr>bar_name = groupB st, bar_Mean = s_mean (welch_sb res),
                          bar_SE = s_se (welch_sb res)\<rparr>]
                  in Inr (Kind_independent barData
                       (apa_independent rt (groupOutcome st) (groupA st) (groupB st) res))))
      | A_correlation \<Rightarrow>
          (let pts = getPoints rt (rows st) (corrX st) (corrY st)
           in if length pts < 4 then Inl ''Not enough paired rows for correlation.''
              else
                (let x = map fst pts;
                     y = map snd pts;
                     res = pearsonCorrelation x y
                 in Inr (Kind_correlation pts (apa_correlation rt (corrX st) (corrY st) res)))))"

text \<open>
  The memoised value \<^verbatim>\<open>output\<close> (the name alone is a keyword of Isabelle): \<^verbatim>\<open>null\<close>
  while no rows are loaded; otherwise the \<^verbatim>\<open>try\<close> block, whose \<^verbatim>\<open>catch\<close> turns a
  thrown error into a result of kind \<^verbatim>\<open>"error"\<close>.
\<close>

definition output_memo :: "runtime \<Rightarrow> page_state \<Rightarrow> output_value" where
  "output_memo rt st =
     (if rows st = [] then Null
      else case output_try rt st of Inl message \<Rightarrow> Kind_error message | Inr v \<Rightarrow> v)"

section \<open>A sample input\<close>

text \<open>
  Three rows of a CSV file, and a runtime that converts the numerals that occur in them.
\<close>

definition sample_runtime :: runtime where
  "sample_runtime =
     \<lparr>rt_Number =
        (\<lambda>s. if s = ''1'' then Fin 1 else if s = ''2'' then Fin 2
             else if s = ''3'' then Fin 3 else if s = ''4'' then Fin 4 else NaN),
      rt_ToString =
        (\<lambda>x. if x = Fin 1 then ''1'' else if x = Fin 2 then ''2''
             else if x = Fin 3 then ''3'' else if x = Fin 4 then ''4'' else ''?'')\<rparr>"

definition sample_rows :: "row list" where
  "sample_rows =
     [[''LVF'' \<mapsto> ''1'', ''RVF'' \<mapsto> ''1'', ''Shifted'' \<mapsto> ''2'', ''LI'' \<mapsto> ''1'',
       ''Gender'' \<mapsto> ''F''],
      [''LVF'' \<mapsto> ''2'', ''RVF'' \<mapsto> '' 2 '', ''Shifted'' \<mapsto> ''3'', ''LI'' \<mapsto> ''n/a'',
       ''Gender'' \<mapsto> ''M''],
      [''LVF'' \<mapsto> ''3'', ''RVF'' \<mapsto> ''3'', ''Shifted'' \<mapsto> ''4'', ''LI'' \<mapsto> ''2'',
       ''Gender'' \<mapsto> ''M'']]"

text \<open>The state of the page with these rows, analysis \<open>k\<close> and second paired column \<open>bCol\<close>.\<close>

definition sample_state :: "AnalysisType \<Rightarrow> string \<Rightarrow> page_state" where
  "sample_state k bCol =
     \<lparr>rows = sample_rows, analysis = k, pairedA = ''LVF'', pairedB = bCol,
      oneVar = ''LI'', oneMu = ''0'', groupOutcome = ''LVF'', groupVar = ''Gender'',
      groupA = ''F'', groupB = ''M'', corrX = ''LVF'', corrY = ''RVF''\<rparr>"

section \<open>Arithmetic with the special values\<close>

lemma plus_NaN [simp]: "x + NaN = NaN" "NaN + x = NaN"
  by (cases x; simp)+

lemma times_NaN [simp]: "x * NaN = NaN" "NaN * x = NaN"
  by (cases x; simp)+

lemma divide_NaN [simp]: "x / NaN = NaN" "NaN / x = NaN"
  by (cases x; simp)+

lemma minus_NaN [simp]: "x - NaN = NaN" "NaN - x = NaN"
  by (simp_all add: minus_jsnum_def)

lemma minus_Fin [simp]: "Fin x - Fin y = Fin (x - y)"
  by (simp add: minus_jsnum_def)

lemma less_NaN [simp]: "\<not> x < NaN" "\<not> NaN < x" "\<not> x \<le> NaN" "\<not> NaN \<le> x"
  by (cases x; simp)+

lemma times_one [simp]: "x * Fin 1 = x" "Fin 1 * x = x"
  by (cases x; simp)+

lemma js_pow_2: "js_pow x 2 = x * x"
  by (simp add: numeral_2_eq_2)

lemma Math_abs_uminus [simp]: "Math_abs (- t) = Math_abs t"
  by (cases t) auto

section \<open>The clamp\<close>

lemma clamp_NaN [simp]: "clamp NaN lo hi = NaN"
  by (cases lo; cases hi; simp add: clamp_def)

lemma clamp_below: "x \<le> Fin 0 \<Longrightarrow> clamp x (Fin 0) (Fin 1) = Fin 0"
  by (cases x) (auto simp: clamp_def)

lemma clamp_above: "Fin 1 \<le> x \<Longrightarrow> clamp x (Fin 0) (Fin 1) = Fin 1"
  by (cases x) (auto simp: clamp_def)

lemma clamp_idem:
  "clamp (clamp x (Fin 0) (Fin 1)) (Fin 0) (Fin 1) = clamp x (Fin 0) (Fin 1)"
  by (cases x) (auto simp: clamp_def)

lemma clamp_unit_or_NaN:
  "clamp x (Fin 0) (Fin 1) = NaN
   \<or> (Fin 0 \<le> clamp x (Fin 0) (Fin 1) \<and> clamp x (Fin 0) (Fin 1) \<le> Fin 1)"
  by (cases x) (auto simp: clamp_def)

section \<open>The continued fraction\<close>

lemma floor_FPMIN_NaN [simp]: "floor_FPMIN NaN = NaN"
  by (simp add: floor_FPMIN_def)

lemma betacf_loop_stop:
  assumes "m \<le> MAX_ITER" and "betacf_body a b x m cdh = (c, d, h, del)"
    and "Math_abs (del - Fin 1) < EPS"
  shows "betacf_loop a b x m cdh = (h, m)"
  using assms by (subst betacf_loop.simps) simp

lemma betacf_loop_next:
  assumes "m \<le> MAX_ITER" and "betacf_body a b x m cdh = (c, d, h, del)"
    and "\<not> Math_abs (del - Fin 1) < EPS"
  shows "betacf_loop a b x m cdh = betacf_loop a b x (Suc m) (c, d, h)"
  using assms by (subst betacf_loop.simps) simp

lemma betacf_loop_exit:
  assumes "\<not> m \<le> MAX_ITER"
  shows "betacf_loop a b x m cdh = (snd (snd cdh), m - 1)"
  using assms by (subst betacf_loop.simps) simp

lemma betacf_loop_upper:
  "m \<le> Suc MAX_ITER \<Longrightarrow> snd (betacf_loop a b x m cdh) \<le> MAX_ITER"
proof (induction a b x m cdh rule: betacf_loop.induct)
  case (1 a b x m cdh)
  show ?case
  proof (cases "m \<le> MAX_ITER")
    case True
    obtain c d h del where body: "betacf_body a b x m cdh = (c, d, h, del)"
      by (cases "betacf_body a b x m cdh") auto
    show ?thesis
    proof (cases "Math_abs (del - Fin 1) < EPS")
      case True
      with \<open>m \<le> MAX_ITER\<close> body show ?thesis
        by (simp add: betacf_loop_stop)
    next
      case False
      with \<open>m \<le> MAX_ITER\<close> body "1.IH"[of c "(d, h, del)" d "(h, del)" h del]
      show ?thesis
        by (simp add: betacf_loop_next)
    qed
  next
    case False
    with "1.prems" show ?thesis
      by (simp add: betacf_loop_exit)
  qed
qed

lemma betacf_loop_lower:
  "m \<le> Suc MAX_ITER \<Longrightarrow> m - 1 \<le> snd (betacf_loop a b x m cdh)"
proof (induction a b x m cdh rule: betacf_loop.induct)
  case (1 a b x m cdh)
  show ?case
  proof (cases "m \<le> MAX_ITER")
    case True
    obtain c d h del where body: "betacf_body a b x m cdh = (c, d, h, del)"
      by (cases "betacf_body a b x m cdh") auto
    show ?thesis
    proof (cases "Math_abs (del - Fin 1) < EPS")
      case True
      with \<open>m \<le> MAX_ITER\<close> body show ?thesis
        by (simp add: betacf_loop_stop)
    next
      case False
      with \<open>m \<le> MAX_ITER\<close> body "1.IH"[of c "(d, h, del)" d "(h, del)" h del]
      show ?thesis
        by (simp add: betacf_loop_next)
    qed
  next
    case False
    then show ?thesis
      by (simp add: betacf_loop_exit)
  qed
qed

lemma betacf_loop_first:
  "m \<le> MAX_ITER \<Longrightarrow> m \<le> snd (betacf_loop a b x m cdh)"
proof -
  assume m: "m \<le> MAX_ITER"
  obtain c d h del where body: "betacf_body a b x m cdh = (c, d, h, del)"
    by (cases "betacf_body a b x m cdh") auto
  show ?thesis
  proof (cases "Math_abs (del - Fin 1) < EPS")
    case True
    with m body show ?thesis
      by (simp add: betacf_loop_stop)
  next
    case False
    with m body betacf_loop_lower[of "Suc m" a b x "(c, d, h)"] show ?thesis
      by (simp add: betacf_loop_next)
  qed
qed

lemma betacf_body_NaN:
  "betacf_body a b x m (c, d, NaN) = (c', d', h', del) \<Longrightarrow> h' = NaN"
  by (auto simp: betacf_body_def Let_def)

lemma betacf_loop_NaN:
  "snd (snd cdh) = NaN \<Longrightarrow> fst (betacf_loop a b x m cdh) = NaN"
proof (induction a b x m cdh rule: betacf_loop.induct)
  case (1 a b x m cdh)
  obtain c d where cdh: "cdh = (c, d, NaN)"
    using "1.prems" by (cases cdh) auto
  show ?case
  proof (cases "m \<le> MAX_ITER")
    case True
    obtain c' d' h' del where body: "betacf_body a b x m cdh = (c', d', h', del)"
      by (cases "betacf_body a b x m cdh") auto
    then have h': "h' = NaN"
      using cdh betacf_body_NaN by simp
    show ?thesis
    proof (cases "Math_abs (del - Fin 1) < EPS")
      case True
      with \<open>m \<le> MAX_ITER\<close> body h' show ?thesis
        by (simp add: betacf_loop_stop)
    next
      case False
      with \<open>m \<le> MAX_ITER\<close> body h' "1.IH"[of c' "(d', h', del)" d' "(h', del)" h' del]
      show ?thesis
        by (simp add: betacf_loop_next)
    qed
  next
    case False
    then show ?thesis
      using "1.prems" by (simp add: betacf_loop_exit)
  qed
qed

lemma betacf_NaN: "betacf a b NaN = NaN"
  by (simp add: betacf_def betacf_run_def Let_def betacf_loop_NaN)

lemma betacf_body_del_NaN:
  "betacf_body a b NaN m cdh = (c, d, h, del) \<Longrightarrow> del = NaN"
  by (cases cdh) (auto simp: betacf_body_def Let_def)

lemma betacf_loop_NaN_count:
  "m \<le> Suc MAX_ITER \<Longrightarrow> 1 \<le> m \<Longrightarrow> snd (betacf_loop a b NaN m cdh) = MAX_ITER"
proof (induction a b "NaN :: jsnum" m cdh rule: betacf_loop.induct)
  case (1 a b m cdh)
  show ?case
  proof (cases "m \<le> MAX_ITER")
    case True
    obtain c d h del where body: "betacf_body a b NaN m cdh = (c, d, h, del)"
      by (cases "betacf_body a b NaN m cdh") auto
    then have del: "del = NaN"
      by (rule betacf_body_del_NaN)
    then have "\<not> Math_abs (del - Fin 1) < EPS"
      by simp
    with True body "1.hyps"[of c "(d, h, del)" d "(h, del)" h del] show ?thesis
      by (simp add: betacf_loop_next)
  next
    case False
    with "1.prems" show ?thesis
      by (simp add: betacf_loop_exit)
  qed
qed

text \<open>The bound is reached: on \<^verbatim>\<open>x = NaN\<close> no multiplier passes the test.\<close>

lemma betacf_run_NaN: "snd (betacf_run a b NaN) = 200"
  using betacf_loop_NaN_count[of 1]
  by (simp add: betacf_run_def Let_def MAX_ITER_def)


text \<open>
  C9. The loop of \<^verbatim>\<open>betacf\<close> makes at least one and at most 200 passes through its
  body, whatever the arguments are, and it stops at the pass whose multiplier
  \<^verbatim>\<open>del\<close> is within \<^verbatim>\<open>3e-12\<close> of 1. The function is total: its recursion is accepted
  with the measure \<open>201 - m\<close>.
\<close>

theorem betacf_at_most_200_iterations:
  "1 \<le> snd (betacf_run a b x) \<and> snd (betacf_run a b x) \<le> 200
   \<and> betacf a b x = fst (betacf_run a b x)
   \<and> (\<forall>m cdh c d h del.
         m \<le> 200 \<longrightarrow> betacf_body a b x m cdh = (c, d, h, del) \<longrightarrow>
         Math_abs (del - Fin 1) < Fin (3 / 10 ^ 12) \<longrightarrow>
         betacf_loop a b x m cdh = (h, m))"
proof -
  have lower: "1 \<le> snd (betacf_run a b x)"
    unfolding betacf_run_def Let_def
    using betacf_loop_first[of 1] by (simp add: MAX_ITER_def)
  have upper: "snd (betacf_run a b x) \<le> 200"
    unfolding betacf_run_def Let_def
    using betacf_loop_upper[of 1] by (simp add: MAX_ITER_def)
  have stop: "\<forall>m cdh c d h del.
         m \<le> 200 \<longrightarrow> betacf_body a b x m cdh = (c, d, h, del) \<longrightarrow>
         Math_abs (del - Fin 1) < Fin (3 / 10 ^ 12) \<longrightarrow>
         betacf_loop a b x m cdh = (h, m)"
    using betacf_loop_stop[of _ a b x] by (simp add: MAX_ITER_def EPS_def)
  from lower upper stop show ?thesis
    by (simp add: betacf_def)
qed

theorem betacf_at_most_200_iterations_witness:
  "(1::nat) \<le> 200
   \<and> betacf_body (Fin 1) (Fin 1) (Fin 0) 1 (Fin 1, Fin 1, Fin 1) = (Fin 1, Fin 1, Fin 1, Fin 1)
   \<and> Math_abs (Fin 1 - Fin 1) < Fin (3 / 10 ^ 12)
   \<and> betacf_loop (Fin 1) (Fin 1) (Fin 0) 1 (Fin 1, Fin 1, Fin 1) = (Fin 1, 1)
   \<and> betacf_run (Fin 1) (Fin 1) (Fin 0) = (Fin 1, 1)
   \<and> snd (betacf_run (Fin 1) (Fin 1) (Fin 0)) \<le> 200"
proof -
  have body:
    "betacf_body (Fin 1) (Fin 1) (Fin 0) 1 (Fin 1, Fin 1, Fin 1) = (Fin 1, Fin 1, Fin 1, Fin 1)"
    by (simp add: betacf_body_def Let_def floor_FPMIN_def FPMIN_def minus_jsnum_def)
  have near: "Math_abs (Fin 1 - Fin 1) < Fin (3 / 10 ^ 12)"
    by (simp add: minus_jsnum_def)
  have stop: "betacf_loop (Fin 1) (Fin 1) (Fin 0) 1 (Fin 1, Fin 1, Fin 1) = (Fin 1, 1)"
    using betacf_at_most_200_iterations[of "Fin 1" "Fin 1" "Fin 0"] body near by simp
  have run: "betacf_run (Fin 1) (Fin 1) (Fin 0) = (Fin 1, 1)"
    using stop by (simp add: betacf_run_def Let_def floor_FPMIN_def FPMIN_def minus_jsnum_def)
  from body near stop run show ?thesis
    by simp
qed

section \<open>The incomplete beta function and the p-value\<close>

lemma regIncompleteBeta_NaN: "regIncompleteBeta a b NaN = NaN"
  by (simp add: regIncompleteBeta_def strict_eq_def Let_def betacf_NaN)

lemma studentTCdf_NaN: "studentTCdf NaN df = NaN"
  by (simp add: studentTCdf_def Let_def regIncompleteBeta_NaN)

lemma pTwoSidedFromT_NaN: "pTwoSidedFromT NaN df = NaN"
  by (simp add: pTwoSidedFromT_def Let_def studentTCdf_NaN)

lemma pTwoSidedFromT_unit_or_NaN:
  "pTwoSidedFromT t df = NaN
   \<or> (Fin 0 \<le> pTwoSidedFromT t df \<and> pTwoSidedFromT t df \<le> Fin 1)"
  unfolding pTwoSidedFromT_def Let_def by (rule clamp_unit_or_NaN)

text \<open>
  C7. \<^verbatim>\<open>regIncompleteBeta\<close> depends on \<^verbatim>\<open>x\<close> through its clamp to \<open>[0, 1]\<close> only;
  it returns 0 when the clamped value is 0 and 1 when it is 1, and so for every
  \<^verbatim>\<open>x <= 0\<close> and every \<^verbatim>\<open>x >= 1\<close>, whatever \<^verbatim>\<open>a\<close> and \<^verbatim>\<open>b\<close> are (non-finite values
  included).
\<close>

theorem regIncompleteBeta_endpoints:
  "regIncompleteBeta a b x = regIncompleteBeta a b (clamp x (Fin 0) (Fin 1))
   \<and> (clamp x (Fin 0) (Fin 1) = Fin 0 \<longrightarrow> regIncompleteBeta a b x = Fin 0)
   \<and> (clamp x (Fin 0) (Fin 1) = Fin 1 \<longrightarrow> regIncompleteBeta a b x = Fin 1)
   \<and> (x \<le> Fin 0 \<longrightarrow> regIncompleteBeta a b x = Fin 0)
   \<and> (Fin 1 \<le> x \<longrightarrow> regIncompleteBeta a b x = Fin 1)"
proof -
  have same: "regIncompleteBeta a b x = regIncompleteBeta a b (clamp x (Fin 0) (Fin 1))"
    by (simp add: regIncompleteBeta_def clamp_idem)
  have at0: "clamp x (Fin 0) (Fin 1) = Fin 0 \<longrightarrow> regIncompleteBeta a b x = Fin 0"
    by (simp add: regIncompleteBeta_def strict_eq_def)
  have at1: "clamp x (Fin 0) (Fin 1) = Fin 1 \<longrightarrow> regIncompleteBeta a b x = Fin 1"
    by (simp add: regIncompleteBeta_def strict_eq_def)
  from same at0 at1 show ?thesis
    using clamp_below[of x] clamp_above[of x] by blast
qed

theorem regIncompleteBeta_endpoints_witness:
  "NInf \<le> Fin 0 \<and> regIncompleteBeta NaN PInf NInf = Fin 0
   \<and> Fin 1 \<le> Fin 7 \<and> regIncompleteBeta (Fin (- 2)) NaN (Fin 7) = Fin 1
   \<and> clamp (Fin 0) (Fin 0) (Fin 1) = Fin 0 \<and> regIncompleteBeta (Fin 3) (Fin 0.5) (Fin 0) = Fin 0
   \<and> clamp (Fin 1) (Fin 0) (Fin 1) = Fin 1 \<and> regIncompleteBeta (Fin 3) (Fin 0.5) (Fin 1) = Fin 1"
proof -
  have below: "NInf \<le> Fin 0" and above: "Fin 1 \<le> Fin 7"
    by simp_all
  have at0: "clamp (Fin 0) (Fin 0) (Fin 1) = Fin 0"
    and at1: "clamp (Fin 1) (Fin 0) (Fin 1) = Fin 1"
    by (simp_all add: clamp_def)
  from below have "regIncompleteBeta NaN PInf NInf = Fin 0"
    using regIncompleteBeta_endpoints[of NaN PInf NInf] by blast
  moreover from above have "regIncompleteBeta (Fin (- 2)) NaN (Fin 7) = Fin 1"
    using regIncompleteBeta_endpoints[of "Fin (- 2)" NaN "Fin 7"] by blast
  moreover from at0 have "regIncompleteBeta (Fin 3) (Fin 0.5) (Fin 0) = Fin 0"
    using regIncompleteBeta_endpoints[of "Fin 3" "Fin 0.5" "Fin 0"] by blast
  moreover from at1 have "regIncompleteBeta (Fin 3) (Fin 0.5) (Fin 1) = Fin 1"
    using regIncompleteBeta_endpoints[of "Fin 3" "Fin 0.5" "Fin 1"] by blast
  ultimately show ?thesis
    using below above at0 at1 by blast
qed

text \<open>
  C4. At \<^verbatim>\<open>t = 0\<close> and a finite \<^verbatim>\<open>df > 0\<close>: the argument \<^verbatim>\<open>df / (df + t * t)\<close> is 1,
  the incomplete beta function returns 1, the distribution function is 0.5 and the
  two-sided p-value is 1.
\<close>

theorem pTwoSided_at_zero:
  assumes "0 < df"
  shows "Fin df / (Fin df + Fin 0 * Fin 0) = Fin 1
   \<and> regIncompleteBeta (Fin df / Fin 2) (Fin 0.5) (Fin df / (Fin df + Fin 0 * Fin 0)) = Fin 1
   \<and> studentTCdf (Fin 0) (Fin df) = Fin 0.5
   \<and> pTwoSidedFromT (Fin 0) (Fin df) = Fin 1"
  using assms
  by (simp add: pTwoSidedFromT_def studentTCdf_def regIncompleteBeta_def clamp_def
      strict_eq_def minus_jsnum_def Let_def)

theorem pTwoSided_at_zero_witness:
  "(0::real) < 4 \<and> studentTCdf (Fin 0) (Fin 4) = Fin 0.5 \<and> pTwoSidedFromT (Fin 0) (Fin 4) = Fin 1"
  using pTwoSided_at_zero[of 4] by simp

text \<open>
  The degrees of freedom of the specification are real numbers. At \<^verbatim>\<open>df = Infinity\<close>,
  which is no real number, the argument is \<^verbatim>\<open>Infinity / Infinity\<close> and the p-value is
  \<^verbatim>\<open>NaN\<close>.
\<close>

lemma pTwoSided_at_zero_df_infinite: "pTwoSidedFromT (Fin 0) PInf = NaN"
  by (simp add: pTwoSidedFromT_def studentTCdf_def Let_def regIncompleteBeta_NaN)

text \<open>
  C5. The two-sided p-value does not depend on the sign of the statistic:
  \<^verbatim>\<open>pTwoSidedFromT(-t, df)\<close> and \<^verbatim>\<open>pTwoSidedFromT(t, df)\<close> are the same value, for every
  \<^verbatim>\<open>t\<close> and every \<^verbatim>\<open>df\<close>; where that value is a number and not \<^verbatim>\<open>NaN\<close>, the two are
  equal for \<^verbatim>\<open>===\<close> as well.
\<close>

theorem pTwoSided_symmetric:
  "pTwoSidedFromT (- t) df = pTwoSidedFromT t df
   \<and> (pTwoSidedFromT t df \<noteq> NaN \<longrightarrow>
        strict_eq (pTwoSidedFromT (- t) df) (pTwoSidedFromT t df))"
  by (simp add: pTwoSidedFromT_def strict_eq_def)

theorem pTwoSided_symmetric_witness:
  "pTwoSidedFromT PInf (Fin 4) = Fin 0
   \<and> pTwoSidedFromT PInf (Fin 4) \<noteq> NaN
   \<and> pTwoSidedFromT (- PInf) (Fin 4) = Fin 0
   \<and> strict_eq (pTwoSidedFromT (- PInf) (Fin 4)) (pTwoSidedFromT PInf (Fin 4))"
proof -
  have p: "pTwoSidedFromT PInf (Fin 4) = Fin 0"
    by (simp add: pTwoSidedFromT_def studentTCdf_def regIncompleteBeta_def clamp_def
        strict_eq_def minus_jsnum_def Let_def)
  then have number: "pTwoSidedFromT PInf (Fin 4) \<noteq> NaN"
    by simp
  from pTwoSided_symmetric[of PInf "Fin 4"] number
  have same: "pTwoSidedFromT (- PInf) (Fin 4) = pTwoSidedFromT PInf (Fin 4)"
    and strict: "strict_eq (pTwoSidedFromT (- PInf) (Fin 4)) (pTwoSidedFromT PInf (Fin 4))"
    by blast+
  from p number same strict show ?thesis
    by simp
qed

section \<open>The p-values of the four analyses\<close>

text \<open>
  C3 (as the code has it). The p-value of each of the four analyses is either \<^verbatim>\<open>NaN\<close>
  or a number of the closed interval \<open>[0, 1]\<close>: \<^verbatim>\<open>Math.max\<close> and \<^verbatim>\<open>Math.min\<close> let
  \<^verbatim>\<open>NaN\<close> through the clamp.
\<close>

theorem p_value_in_unit_interval_or_NaN:
  "(paired_p (pairedTTest a b) = NaN
      \<or> (Fin 0 \<le> paired_p (pairedTTest a b) \<and> paired_p (pairedTTest a b) \<le> Fin 1))
   \<and> (onesample_p (oneSampleT arr mu) = NaN
      \<or> (Fin 0 \<le> onesample_p (oneSampleT arr mu) \<and> onesample_p (oneSampleT arr mu) \<le> Fin 1))
   \<and> (welch_p (welchTTest a b) = NaN
      \<or> (Fin 0 \<le> welch_p (welchTTest a b) \<and> welch_p (welchTTest a b) \<le> Fin 1))
   \<and> (pearson_p (pearsonCorrelation x y) = NaN
      \<or> (Fin 0 \<le> pearson_p (pearsonCorrelation x y) \<and> pearson_p (pearsonCorrelation x y) \<le> Fin 1))"
proof -
  have paired: "paired_p (pairedTTest a b) = NaN
      \<or> (Fin 0 \<le> paired_p (pairedTTest a b) \<and> paired_p (pairedTTest a b) \<le> Fin 1)"
    unfolding pairedTTest_def Let_def
    using pTwoSidedFromT_unit_or_NaN by simp
  have onesample: "onesample_p (oneSampleT arr mu) = NaN
      \<or> (Fin 0 \<le> onesample_p (oneSampleT arr mu) \<and> onesample_p (oneSampleT arr mu) \<le> Fin 1)"
    unfolding oneSampleT_def Let_def
    using pTwoSidedFromT_unit_or_NaN by simp
  have welch: "welch_p (welchTTest a b) = NaN
      \<or> (Fin 0 \<le> welch_p (welchTTest a b) \<and> welch_p (welchTTest a b) \<le> Fin 1)"
    unfolding welchTTest_def Let_def
    using pTwoSidedFromT_unit_or_NaN by simp
  have pearson: "pearson_p (pearsonCorrelation x y) = NaN
      \<or> (Fin 0 \<le> pearson_p (pearsonCorrelation x y) \<and> pearson_p (pearsonCorrelation x y) \<le> Fin 1)"
    unfolding pearsonCorrelation_def Let_def
    using pTwoSidedFromT_unit_or_NaN by (simp split: prod.split)
  from paired onesample welch pearson show ?thesis
    by blast
qed

text \<open>
  The paired test of a column with itself: every difference is 0, the statistic is
  \<^verbatim>\<open>0 / 0\<close>, and the p-value is \<^verbatim>\<open>NaN\<close>, which is not in \<open>[0, 1]\<close>.
\<close>

theorem p_value_NaN_counterexample:
  "paired_t (pairedTTest [Fin 1, Fin 2, Fin 3] [Fin 1, Fin 2, Fin 3]) = NaN
   \<and> paired_p (pairedTTest [Fin 1, Fin 2, Fin 3] [Fin 1, Fin 2, Fin 3]) = NaN
   \<and> \<not> (Fin 0 \<le> paired_p (pairedTTest [Fin 1, Fin 2, Fin 3] [Fin 1, Fin 2, Fin 3])
         \<and> paired_p (pairedTTest [Fin 1, Fin 2, Fin 3] [Fin 1, Fin 2, Fin 3]) \<le> Fin 1)"
  by (simp add: pairedTTest_def summarize_def mean_def sd_def varianceSample_def len_def
      minus_jsnum_def Let_def pTwoSidedFromT_NaN js_pow_2)

section \<open>Swapping the arguments of the paired test\<close>

lemma uminus_uminus [simp]: "- (- x) = (x::jsnum)"
  by (cases x) auto

lemma plus_commute: "x + y = y + (x::jsnum)"
  by (cases x; cases y) auto

lemma uminus_plus: "- (x + y) = - x + - (y::jsnum)"
  by (cases x; cases y) auto

lemma uminus_minus: "- (x - y) = y - (x::jsnum)"
  by (simp add: minus_jsnum_def uminus_plus plus_commute)

lemma minus_uminus: "- x - - y = - (x - (y::jsnum))"
  by (simp add: minus_jsnum_def uminus_plus)

lemma uminus_times: "- x * y = - (x * (y::jsnum))" "x * - y = - (x * y)"
  by (cases x; cases y; auto)+

lemma uminus_divide: "- x / y = - (x / (y::jsnum))"
  by (cases x; cases y) auto

lemma js_pow_2_uminus: "js_pow (- x) 2 = js_pow x 2"
  by (simp add: js_pow_2 uminus_times)

lemma diffs_swap: "length a = length b \<Longrightarrow> diffs b a = map uminus (diffs a b)"
  by (induction a b rule: list_induct2) (simp_all add: uminus_minus)

lemma sum_uminus:
  "foldl (\<lambda>a b. a + b) (- acc) (map uminus xs) = - foldl (\<lambda>a b. a + b) (acc::jsnum) xs"
proof (induction xs arbitrary: acc)
  case Nil
  show ?case by simp
next
  case (Cons x xs)
  have "- acc + - x = - (acc + x)"
    by (rule uminus_plus[symmetric])
  with Cons.IH[of "acc + x"] show ?case
    by simp
qed

lemma len_map [simp]: "len (map f xs) = len xs"
  by (simp add: len_def)

lemma mean_uminus: "mean (map uminus xs) = - mean xs"
  using sum_uminus[of "Fin 0" xs] by (simp add: mean_def uminus_divide)

lemma sumsq_uminus:
  "foldl (\<lambda>acc v. acc + js_pow (v - - m) 2) acc (map uminus xs)
   = foldl (\<lambda>acc v. acc + js_pow (v - m) 2) acc xs"
  by (induction xs arbitrary: acc) (simp_all add: minus_uminus js_pow_2_uminus)

lemma varianceSample_uminus: "varianceSample (map uminus xs) = varianceSample xs"
  by (simp add: varianceSample_def mean_uminus sumsq_uminus)

lemma sd_uminus: "sd (map uminus xs) = sd xs"
  by (simp add: sd_def varianceSample_uminus)

lemma summarize_uminus:
  "summarize (map uminus xs) = (summarize xs)\<lparr>s_mean := - s_mean (summarize xs)\<rparr>"
  by (simp add: summarize_def sd_uminus mean_uminus Let_def)

lemma paired_swap:
  assumes "length a = length b"
  shows "paired_t (pairedTTest b a) = - paired_t (pairedTTest a b)"
    and "paired_d (pairedTTest b a) = - paired_d (pairedTTest a b)"
    and "paired_df (pairedTTest b a) = paired_df (pairedTTest a b)"
    and "paired_p (pairedTTest b a) = paired_p (pairedTTest a b)"
  using diffs_swap[OF assms]
  by (simp_all add: pairedTTest_def Let_def summarize_uminus uminus_divide pTwoSidedFromT_def)

lemma diffs_finite:
  "length a = length b \<Longrightarrow> list_all isFinite a \<Longrightarrow> list_all isFinite b \<Longrightarrow> list_all isFinite (diffs a b)"
proof (induction a b rule: list_induct2)
  case Nil then show ?case by simp
next
  case (Cons x xs y ys)
  then show ?case by (cases x; cases y) (simp_all add: minus_jsnum_def)
qed

lemma sum_finite:
  "list_all isFinite xs \<Longrightarrow> \<exists>s. foldl (\<lambda>a b. a + b) (Fin r) xs = Fin s"
proof (induction xs arbitrary: r)
  case Nil then show ?case by simp
next
  case (Cons x xs)
  then show ?case by (cases x) simp_all
qed

lemma sumsq_finite:
  "list_all isFinite xs \<Longrightarrow> 0 \<le> r \<Longrightarrow>
   \<exists>s\<ge>0. foldl (\<lambda>acc v. acc + js_pow (v - Fin m) 2) (Fin r) xs = Fin s"
proof (induction xs arbitrary: r)
  case Nil then show ?case by simp
next
  case (Cons x xs)
  then obtain v where x: "x = Fin v" by (cases x) simp_all
  have "0 \<le> r + (v - m) * (v - m)" using Cons.prems by simp
  from Cons.IH[OF _ this] Cons.prems show ?case
    by (simp add: x js_pow_2 minus_jsnum_def)
qed

lemma mean_finite:
  assumes "list_all isFinite xs" "xs \<noteq> []"
  shows "\<exists>m. mean xs = Fin m"
proof -
  from sum_finite[OF assms(1), of 0] obtain s where "foldl (\<lambda>a b. a + b) (Fin 0) xs = Fin s" ..
  with assms(2) show ?thesis by (simp add: mean_def len_def)
qed

lemma sd_finite:
  assumes "list_all isFinite xs" "2 \<le> length xs"
  shows "\<exists>s\<ge>0. sd xs = Fin s"
proof -
  from assms(2) have "xs \<noteq> []" by auto
  from mean_finite[OF assms(1) this] obtain m where m: "mean xs = Fin m" ..
  from sumsq_finite[OF assms(1), of 0 m] obtain q where q: "0 \<le> q"
    "foldl (\<lambda>acc v. acc + js_pow (v - Fin m) 2) (Fin 0) xs = Fin q" by auto
  from assms(2) have "0 < real (length xs) - 1"
    by simp
  with q(1) have nonneg: "\<not> q / (real (length xs) - 1) < 0"
    by (simp add: not_less)
  from assms(2) have "real (length xs) - 1 \<noteq> 0"
    by simp
  with nonneg q assms(2) m have "sd xs = Fin (sqrt (q / (real (length xs) - 1)))"
    by (simp add: sd_def varianceSample_def len_def minus_jsnum_def Let_def)
  moreover from nonneg have "0 \<le> sqrt (q / (real (length xs) - 1))"
    by (simp add: not_less)
  ultimately show ?thesis by blast
qed

lemma paired_finite:
  assumes "length a = length b" "2 \<le> length a" "list_all isFinite a" "list_all isFinite b"
    "sd (diffs a b) \<noteq> Fin 0"
  shows "isFinite (paired_t (pairedTTest a b))" "isFinite (paired_d (pairedTTest a b))"
    "isFinite (paired_df (pairedTTest a b))"
proof -
  have len: "length (diffs a b) = length a"
    using assms(1) by (induction a b rule: list_induct2) simp_all
  have fin: "list_all isFinite (diffs a b)"
    using assms by (simp add: diffs_finite)
  from len assms(2) have ne: "diffs a b \<noteq> []" by auto
  from mean_finite[OF fin ne] obtain m where m: "mean (diffs a b) = Fin m" ..
  from sd_finite[OF fin] len assms(2) obtain s where s: "0 \<le> s" "sd (diffs a b) = Fin s" by auto
  with assms(5) have s0: "s \<noteq> 0" by simp
  from ne have n0: "sqrt (real (length (diffs a b))) \<noteq> 0" by simp
  show "isFinite (paired_t (pairedTTest a b))"
    using m s s0 n0 by (simp add: pairedTTest_def summarize_def Let_def len_def)
  show "isFinite (paired_d (pairedTTest a b))"
    using m s s0 by (simp add: pairedTTest_def summarize_def Let_def len_def)
  show "isFinite (paired_df (pairedTTest a b))"
    by (simp add: pairedTTest_def summarize_def Let_def len_def minus_jsnum_def)
qed


text \<open>
  C10. For two vectors of finite numbers of the same length \<open>n \<ge> 2\<close> whose differences
  have a standard deviation other than 0, swapping the arguments of \<^verbatim>\<open>pairedTTest\<close>
  negates \<^verbatim>\<open>t\<close> and \<^verbatim>\<open>d\<close> and keeps \<^verbatim>\<open>df\<close>; the results are numbers, so the equalities
  hold for \<^verbatim>\<open>===\<close> as well.
\<close>

theorem pairedTTest_antisymmetric:
  assumes "length a = length b" and "2 \<le> length a"
    and "list_all isFinite a" and "list_all isFinite b"
    and "sd (diffs a b) \<noteq> Fin 0"
  shows "strict_eq (paired_t (pairedTTest b a)) (- paired_t (pairedTTest a b))
    \<and> strict_eq (paired_d (pairedTTest b a)) (- paired_d (pairedTTest a b))
    \<and> strict_eq (paired_df (pairedTTest b a)) (paired_df (pairedTTest a b))"
proof -
  from paired_finite[OF assms]
  obtain t d df where fin: "paired_t (pairedTTest a b) = Fin t"
    "paired_d (pairedTTest a b) = Fin d" "paired_df (pairedTTest a b) = Fin df"
    by (cases "paired_t (pairedTTest a b)"; cases "paired_d (pairedTTest a b)";
        cases "paired_df (pairedTTest a b)") simp_all
  with paired_swap[OF assms(1)] show ?thesis
    by (simp add: strict_eq_def)
qed

theorem pairedTTest_antisymmetric_witness:
  "length [Fin 1, Fin 3] = length [Fin 0, Fin 0] \<and> 2 \<le> length [Fin 1, Fin 3]
   \<and> list_all isFinite [Fin 1, Fin 3] \<and> list_all isFinite [Fin 0, Fin 0]
   \<and> sd (diffs [Fin 1, Fin 3] [Fin 0, Fin 0]) = Fin (sqrt 2)
   \<and> paired_t (pairedTTest [Fin 1, Fin 3] [Fin 0, Fin 0]) = Fin 2
   \<and> strict_eq (paired_t (pairedTTest [Fin 0, Fin 0] [Fin 1, Fin 3])) (- Fin 2)
   \<and> strict_eq (paired_d (pairedTTest [Fin 0, Fin 0] [Fin 1, Fin 3]))
        (- paired_d (pairedTTest [Fin 1, Fin 3] [Fin 0, Fin 0]))
   \<and> strict_eq (paired_df (pairedTTest [Fin 0, Fin 0] [Fin 1, Fin 3])) (Fin 1)"
proof -
  have sd: "sd (diffs [Fin 1, Fin 3] [Fin 0, Fin 0]) = Fin (sqrt 2)"
    by (simp add: sd_def varianceSample_def mean_def len_def minus_jsnum_def js_pow_2)
  then have nz: "sd (diffs [Fin 1, Fin 3] [Fin 0, Fin 0]) \<noteq> Fin 0"
    by simp
  have t: "paired_t (pairedTTest [Fin 1, Fin 3] [Fin 0, Fin 0]) = Fin 2"
    using sd by (simp add: pairedTTest_def summarize_def Let_def mean_def len_def minus_jsnum_def)
  have df: "paired_df (pairedTTest [Fin 1, Fin 3] [Fin 0, Fin 0]) = Fin 1"
    by (simp add: pairedTTest_def summarize_def Let_def len_def minus_jsnum_def)
  from pairedTTest_antisymmetric[of "[Fin 1, Fin 3]" "[Fin 0, Fin 0]"] nz sd t df
  show ?thesis
    by simp
qed


section \<open>Welch's test against the formulas of the specification\<close>

lemma js_pow_4: "js_pow (js_pow x 2) 2 = js_pow x 4"
  by (cases x) (simp_all add: eval_nat_numeral)

text \<open>
  C6. For two vectors of at least two elements each, \<^verbatim>\<open>welchTTest\<close> returns the
  statistic, the Welch-Satterthwaite degrees of freedom and Hedges' g (the pooled
  Cohen's d times \<open>J\<close>) that the specification's formulas give for the means, the
  standard deviations and the sizes of the two vectors.
\<close>

theorem welchTTest_formulas:
  assumes "2 \<le> length a" and "2 \<le> length b"
  shows "welch_t (welchTTest a b)
           = spec_welch_t (mean a) (mean b) (sd a) (sd b) (len a) (len b)
    \<and> welch_df (welchTTest a b) = spec_welch_df (sd a) (sd b) (len a) (len b)
    \<and> welch_g (welchTTest a b)
           = spec_pooled_d (mean a) (mean b) (sd a) (sd b) (len a) (len b)
             * spec_hedges_J (len a) (len b)"
  by (simp add: welchTTest_def summarize_def Let_def spec_welch_t_def spec_welch_df_def
      spec_pooled_d_def spec_hedges_J_def js_pow_4)

lemma mean_1_to_5: "mean [Fin 1, Fin 2, Fin 3, Fin 4, Fin 5] = Fin 3"
  by (simp add: mean_def len_def)

lemma mean_6_to_10: "mean [Fin 6, Fin 7, Fin 8, Fin 9, Fin 10] = Fin 8"
  by (simp add: mean_def len_def)

lemma sd_1_to_5: "sd [Fin 1, Fin 2, Fin 3, Fin 4, Fin 5] = Fin (sqrt (5 / 2))"
  by (simp add: sd_def varianceSample_def mean_1_to_5 len_def minus_jsnum_def js_pow_2)

lemma sd_6_to_10: "sd [Fin 6, Fin 7, Fin 8, Fin 9, Fin 10] = Fin (sqrt (5 / 2))"
  by (simp add: sd_def varianceSample_def mean_6_to_10 len_def minus_jsnum_def js_pow_2)

text \<open>
  At \<open>a = [1, 2, 3, 4, 5]\<close> and \<open>b = [6, 7, 8, 9, 10]\<close> both variances are \<open>5 / 2\<close>:
  the statistic is \<open>-5\<close>, and there are 8 degrees of freedom.
\<close>

theorem welchTTest_formulas_witness:
  "2 \<le> length [Fin 1, Fin 2, Fin 3, Fin 4, Fin 5]
   \<and> 2 \<le> length [Fin 6, Fin 7, Fin 8, Fin 9, Fin 10]
   \<and> welch_t (welchTTest [Fin 1, Fin 2, Fin 3, Fin 4, Fin 5] [Fin 6, Fin 7, Fin 8, Fin 9, Fin 10])
       = Fin (- 5)
   \<and> welch_df (welchTTest [Fin 1, Fin 2, Fin 3, Fin 4, Fin 5] [Fin 6, Fin 7, Fin 8, Fin 9, Fin 10])
       = Fin 8
   \<and> welch_g (welchTTest [Fin 1, Fin 2, Fin 3, Fin 4, Fin 5] [Fin 6, Fin 7, Fin 8, Fin 9, Fin 10])
       = Fin (- 5 / sqrt (5 / 2) * (28 / 31))"
  using welchTTest_formulas[of "[Fin 1, Fin 2, Fin 3, Fin 4, Fin 5]"
      "[Fin 6, Fin 7, Fin 8, Fin 9, Fin 10]"]
  by (simp add: mean_1_to_5 mean_6_to_10 sd_1_to_5 sd_6_to_10 len_def spec_welch_t_def
      spec_welch_df_def spec_pooled_d_def spec_hedges_J_def js_pow_2 minus_jsnum_def
      eval_nat_numeral)

section \<open>The summary of a vector of finite numbers\<close>

lemma sum_Fin: "foldl (\<lambda>a b. a + b) (Fin r) (map Fin xs) = Fin (r + sum_list xs)"
  by (induction xs arbitrary: r) (simp_all add: add.assoc)

lemma mean_Fin: "xs \<noteq> [] \<Longrightarrow> mean (map Fin xs) = Fin (spec_mean xs)"
  by (simp add: mean_def len_def sum_Fin spec_mean_def)

lemma sumsq_Fin:
  "foldl (\<lambda>acc v. acc + js_pow (v - Fin m) 2) (Fin r) (map Fin xs)
   = Fin (r + (\<Sum>x\<leftarrow>xs. (x - m)\<^sup>2))"
  by (induction xs arbitrary: r) (simp_all add: js_pow_2 power2_eq_square add.assoc)

lemma varianceSample_Fin:
  assumes "2 \<le> length xs"
  shows "varianceSample (map Fin xs) = Fin (spec_variance xs)"
proof -
  from assms have "xs \<noteq> []" and "real (length xs) - 1 \<noteq> 0"
    by auto
  then show ?thesis
    by (simp add: varianceSample_def mean_Fin sumsq_Fin len_def spec_variance_def)
qed

lemma spec_variance_nonneg: "2 \<le> length xs \<Longrightarrow> 0 \<le> spec_variance xs"
  unfolding spec_variance_def
  by (intro divide_nonneg_nonneg sum_list_nonneg) auto

lemma sd_Fin:
  assumes "2 \<le> length xs"
  shows "sd (map Fin xs) = Fin (spec_sd xs)"
  using assms spec_variance_nonneg[OF assms]
  by (simp add: sd_def varianceSample_Fin spec_sd_def not_less)

lemma summarize_Fin:
  assumes "2 \<le> length xs"
  shows "summarize (map Fin xs) =
    \<lparr>s_n = Fin (real (length xs)), s_mean = Fin (spec_mean xs), s_sd = Fin (spec_sd xs),
     s_se = Fin (spec_sd xs / sqrt (real (length xs)))\<rparr>"
proof -
  from assms have "xs \<noteq> []" by auto
  with assms show ?thesis
    by (simp add: summarize_def Let_def mean_Fin sd_Fin len_def)
qed


text \<open>
  On two vectors of finite numbers, at least two in each and not both constant, the
  results are numbers: the values of the real formulas on the mean and the sample
  variance of section 4.1 of the specification.
\<close>

lemma welchTTest_on_reals:
  fixes xs ys :: "real list"
  defines "na \<equiv> real (length xs)" and "nb \<equiv> real (length ys)"
    and "ma \<equiv> spec_mean xs" and "mb \<equiv> spec_mean ys"
    and "va \<equiv> spec_variance xs" and "vb \<equiv> spec_variance ys"
  assumes "2 \<le> length xs" and "2 \<le> length ys" and "0 < va + vb"
  shows "welch_t (welchTTest (map Fin xs) (map Fin ys))
           = Fin ((ma - mb) / sqrt (va / na + vb / nb))"
    and "welch_df (welchTTest (map Fin xs) (map Fin ys))
           = Fin ((va / na + vb / nb)\<^sup>2
                  / (va\<^sup>2 / (na\<^sup>2 * (na - 1)) + vb\<^sup>2 / (nb\<^sup>2 * (nb - 1))))"
    and "welch_g (welchTTest (map Fin xs) (map Fin ys))
           = Fin ((ma - mb) / sqrt (((na - 1) * va + (nb - 1) * vb) / (na + nb - 2))
                  * (1 - 3 / (4 * (na + nb) - 9)))"
proof -
  have na: "2 \<le> na" and nb: "2 \<le> nb"
    using assms by simp_all
  have va: "0 \<le> va" and vb: "0 \<le> vb"
    using assms spec_variance_nonneg by simp_all
  have sqa: "spec_sd xs * spec_sd xs = va" and sqb: "spec_sd ys * spec_sd ys = vb"
    using va vb by (simp_all add: spec_sd_def va_def vb_def)
  have se_pos: "0 < va / na + vb / nb"
  proof -
    have "0 \<le> va / na" "0 \<le> vb / nb" using va vb na nb by simp_all
    moreover have "0 < va / na \<or> 0 < vb / nb"
      using \<open>0 < va + vb\<close> va vb na nb by (auto simp: zero_less_divide_iff) 
    ultimately show ?thesis by linarith
  qed
  have den_pos: "0 < va * va / (na * na * (na - 1)) + vb * vb / (nb * nb * (nb - 1))"
  proof -
    have "0 \<le> va * va / (na * na * (na - 1))" "0 \<le> vb * vb / (nb * nb * (nb - 1))"
      using va vb na nb by simp_all
    moreover have "0 < va * va / (na * na * (na - 1)) \<or> 0 < vb * vb / (nb * nb * (nb - 1))"
      using \<open>0 < va + vb\<close> va vb na nb by (auto simp: zero_less_divide_iff zero_less_mult_iff)
    ultimately show ?thesis by linarith
  qed
  have pooled_pos: "0 < ((na - 1) * va + (nb - 1) * vb) / (na + nb - 2)"
  proof -
    have "0 \<le> (na - 1) * va" "0 \<le> (nb - 1) * vb" using va vb na nb by simp_all
    moreover have "0 < (na - 1) * va \<or> 0 < (nb - 1) * vb"
      using \<open>0 < va + vb\<close> va vb na nb by (auto simp: zero_less_mult_iff)
    ultimately have "0 < (na - 1) * va + (nb - 1) * vb" by linarith
    moreover have "0 < na + nb - 2" using na nb by linarith
    ultimately show ?thesis by simp
  qed
  have "4 \<le> na + nb"
    using na nb by linarith
  then have "0 < 4 * (na + nb) - 9"
    by simp
  then have J: "4 * (na + nb) - 9 \<noteq> 0"
    by simp
  have sums: "summarize (map Fin xs) = \<lparr>s_n = Fin na, s_mean = Fin ma, s_sd = Fin (spec_sd xs),
       s_se = Fin (spec_sd xs / sqrt na)\<rparr>"
    "summarize (map Fin ys) = \<lparr>s_n = Fin nb, s_mean = Fin mb, s_sd = Fin (spec_sd ys),
       s_se = Fin (spec_sd ys / sqrt nb)\<rparr>"
    using assms by (simp_all add: summarize_Fin)
  have nz: "na \<noteq> 0" "nb \<noteq> 0" "na * na * (na - 1) \<noteq> 0" "nb * nb * (nb - 1) \<noteq> 0"
    "na + nb - 2 \<noteq> 0"
    using na nb by auto
  define S where "S = va / na + vb / nb"
  define D where "D = va * va / (na * na * (na - 1)) + vb * vb / (nb * nb * (nb - 1))"
  define P where "P = ((na - 1) * va + (nb - 1) * vb) / (na + nb - 2)"
  define K where "K = 4 * (na + nb) - 9"
  have pos: "0 < S" "0 < D" "0 < P" "K \<noteq> 0"
    using se_pos den_pos pooled_pos J by (simp_all add: S_def D_def P_def K_def)
  have js: "js_pow (Fin (spec_sd xs)) 2 = Fin va" "js_pow (Fin (spec_sd ys)) 2 = Fin vb"
    "js_pow (Fin va) 2 = Fin (va * va)" "js_pow (Fin vb) 2 = Fin (vb * vb)"
    "js_pow (Fin na) 2 = Fin (na * na)" "js_pow (Fin nb) 2 = Fin (nb * nb)"
    by (simp_all add: js_pow_2 sqa sqb)
  have eS: "Fin va / Fin na + Fin vb / Fin nb = Fin S"
    using nz by (simp add: S_def)
  have eD: "Fin (va * va) / Fin (na * na * (na - 1))
            + Fin (vb * vb) / Fin (nb * nb * (nb - 1)) = Fin D"
    using nz by (simp add: D_def)
  have eP: "Fin ((na - 1) * va + (nb - 1) * vb) / Fin (na + nb - 2) = Fin P"
    using nz by (simp add: P_def)
  have eK: "Fin (4 * (na + nb) - 9) = Fin K"
    by (simp add: K_def)
  note arith = plus_jsnum.simps times_jsnum.simps minus_Fin
  have sqrtS: "Math_sqrt (Fin S) = Fin (sqrt S)" and sqrtP: "Math_sqrt (Fin P) = Fin (sqrt P)"
    using pos by simp_all
  have divs: "Fin (ma - mb) / Fin (sqrt S) = Fin ((ma - mb) / sqrt S)"
    "Fin (ma - mb) / Fin (sqrt P) = Fin ((ma - mb) / sqrt P)"
    "js_pow (Fin S) 2 / Fin D = Fin (S\<^sup>2 / D)"
    "Fin 1 - Fin 3 / Fin K = Fin (1 - 3 / K)"
    using pos by (simp_all add: js_pow_2 power2_eq_square)
  have t: "welch_t (welchTTest (map Fin xs) (map Fin ys)) = Fin ((ma - mb) / sqrt S)"
    by (simp only: welchTTest_def Let_def sums NumericSummary.select_convs
        welch_result.select_convs js arith eS sqrtS divs)
  have df: "welch_df (welchTTest (map Fin xs) (map Fin ys)) = Fin (S\<^sup>2 / D)"
    by (simp only: welchTTest_def Let_def sums NumericSummary.select_convs
        welch_result.select_convs js arith eS eD divs)
  have g: "welch_g (welchTTest (map Fin xs) (map Fin ys))
      = Fin ((ma - mb) / sqrt P * (1 - 3 / K))"
    by (simp only: welchTTest_def Let_def sums NumericSummary.select_convs
        welch_result.select_convs js arith eP eK sqrtP divs)
  from t show "welch_t (welchTTest (map Fin xs) (map Fin ys))
           = Fin ((ma - mb) / sqrt (va / na + vb / nb))"
    by (simp only: S_def)
  from df show "welch_df (welchTTest (map Fin xs) (map Fin ys))
           = Fin ((va / na + vb / nb)\<^sup>2
                  / (va\<^sup>2 / (na\<^sup>2 * (na - 1)) + vb\<^sup>2 / (nb\<^sup>2 * (nb - 1))))"
    by (simp only: S_def D_def power2_eq_square)
  from g show "welch_g (welchTTest (map Fin xs) (map Fin ys))
           = Fin ((ma - mb) / sqrt (((na - 1) * va + (nb - 1) * vb) / (na + nb - 2))
                  * (1 - 3 / (4 * (na + nb) - 9)))"
    by (simp only: P_def K_def)
qed


section \<open>The formatter\<close>

lemma decimal_lt_10: "n < 10 \<Longrightarrow> decimal n = [digit n]"
  by (subst decimal.simps) simp

lemma decimal_ge_10: "10 \<le> n \<Longrightarrow> decimal n = decimal (n div 10) @ [digit (n mod 10)]"
  by (subst decimal.simps) simp

lemma decimal_lt_100: "10 \<le> n \<Longrightarrow> n < 100 \<Longrightarrow> decimal n = [digit (n div 10), digit (n mod 10)]"
  by (simp add: decimal_ge_10 decimal_lt_10)

lemma decimal_lt_1000:
  "100 \<le> n \<Longrightarrow> n < 1000 \<Longrightarrow> decimal n = [digit (n div 100), digit (n div 10 mod 10), digit (n mod 10)]"
  by (simp add: decimal_ge_10[of n] decimal_lt_100 div_mult2_eq[symmetric])

lemma decimal_ge_1000:
  assumes "1000 \<le> n"
  shows "decimal n = decimal (n div 1000) @ [digit (n div 100 mod 10), digit (n div 10 mod 10), digit (n mod 10)]"
proof -
  from assms have "10 \<le> n" "10 \<le> n div 10" "10 \<le> n div 100"
    by simp_all
  then have "decimal n = decimal (n div 10) @ [digit (n mod 10)]"
    and "decimal (n div 10) = decimal (n div 10 div 10) @ [digit (n div 10 mod 10)]"
    and "decimal (n div 100) = decimal (n div 100 div 10) @ [digit (n div 100 mod 10)]"
    by (simp_all only: decimal_ge_10)
  moreover have "n div 10 div 10 = n div 100" "n div 100 div 10 = n div 1000"
    by (simp_all add: div_mult2_eq[symmetric])
  ultimately show ?thesis
    by simp
qed

lemma decimal_nonempty: "decimal n \<noteq> []"
  by (subst decimal.simps) simp

lemma digit_nonzero: "0 < k \<Longrightarrow> k < 10 \<Longrightarrow> digit k \<noteq> CHR ''0''"
proof -
  assume "0 < k" "k < 10"
  then have "k \<in> {1, 2, 3, 4, 5, 6, 7, 8, 9}" by auto
  then show ?thesis by (auto simp: digit_def)
qed

lemma hd_decimal: "0 < n \<Longrightarrow> hd (decimal n) \<noteq> CHR ''0''"
proof (induction n rule: decimal.induct)
  case (1 n)
  show ?case
  proof (cases "n < 10")
    case True
    with "1.prems" show ?thesis by (simp add: decimal_lt_10 digit_nonzero)
  next
    case False
    then have "0 < n div 10" by simp
    with False "1.IH" show ?thesis
      by (simp add: decimal_ge_10 decimal_nonempty)
  qed
qed

lemma replace_leading_0_decimal:
  "0 < n \<Longrightarrow> replace_leading_0 (decimal n @ s) = decimal n @ s"
  using hd_decimal[of n] decimal_nonempty[of n]
  by (cases "decimal n") (simp_all add: replace_leading_0_def)

lemma toFixed3_small:
  assumes "0 \<le> p" "p < 10 ^ 21" "nat \<lfloor>p * 1000 + 1 / 2\<rfloor> < 1000"
  shows "toFixed rt (Fin p) 3 = ''0.'' @ [digit (nat \<lfloor>p * 1000 + 1 / 2\<rfloor> div 100 mod 10),
     digit (nat \<lfloor>p * 1000 + 1 / 2\<rfloor> div 10 mod 10), digit (nat \<lfloor>p * 1000 + 1 / 2\<rfloor> mod 10)]"
proof -
  define n where "n = nat \<lfloor>p * 1000 + 1 / 2\<rfloor>"
  have d0: "digit 0 = CHR ''0''" by (simp add: digit_def)
  consider "n < 10" | "10 \<le> n" "n < 100" | "100 \<le> n" "n < 1000"
    using assms(3) n_def by linarith
  then have "(let m = decimal n;
                  m0 = (if length m \<le> 3 then replicate (3 + 1 - length m) CHR ''0'' @ m else m);
                  k = length m0
              in take (k - 3) m0 @ ''.'' @ drop (k - 3) m0)
             = ''0.'' @ [digit (n div 100 mod 10), digit (n div 10 mod 10), digit (n mod 10)]"
  proof cases
    case 1
    then show ?thesis by (simp add: decimal_lt_10 d0 numeral_3_eq_3)
  next
    case 2
    then show ?thesis by (simp add: decimal_lt_100 d0 numeral_3_eq_3)
  next
    case 3
    then show ?thesis by (simp add: decimal_lt_1000 d0 numeral_3_eq_3)
  qed
  with assms(1,2) show ?thesis
    by (simp add: toFixed_def Let_def n_def)
qed


lemma toFixed3_large:
  assumes "0 \<le> p" "p < 10 ^ 21" "1000 \<le> nat \<lfloor>p * 1000 + 1 / 2\<rfloor>"
  shows "toFixed rt (Fin p) 3 = decimal (nat \<lfloor>p * 1000 + 1 / 2\<rfloor> div 1000) @ ''.'' @
     [digit (nat \<lfloor>p * 1000 + 1 / 2\<rfloor> div 100 mod 10),
      digit (nat \<lfloor>p * 1000 + 1 / 2\<rfloor> div 10 mod 10), digit (nat \<lfloor>p * 1000 + 1 / 2\<rfloor> mod 10)]"
proof -
  define n where "n = nat \<lfloor>p * 1000 + 1 / 2\<rfloor>"
  from assms(3) have dec: "decimal n = decimal (n div 1000) @
      [digit (n div 100 mod 10), digit (n div 10 mod 10), digit (n mod 10)]"
    unfolding n_def by (rule decimal_ge_1000)
  have "(let m = decimal n;
             m0 = (if length m \<le> 3 then replicate (3 + 1 - length m) CHR ''0'' @ m else m);
             k = length m0
         in take (k - 3) m0 @ ''.'' @ drop (k - 3) m0)
        = decimal (n div 1000) @ ''.'' @ [digit (n div 100 mod 10), digit (n div 10 mod 10), digit (n mod 10)]"
    using decimal_nonempty[of "n div 1000"]
    by (simp add: dec Let_def)
  with assms(1,2) show ?thesis
    by (simp add: toFixed_def Let_def n_def)
qed

text \<open>
  C8. \<^verbatim>\<open>fmtP\<close>: a value that is not finite gives \<^verbatim>\<open>"NA"\<close>; a finite \<open>p < 0.001\<close> gives
  \<^verbatim>\<open>"< .001"\<close>; every other finite \<open>p\<close> gives \<^verbatim>\<open>p.toFixed(3)\<close> without a leading
  \<^verbatim>\<open>0\<close>, which below \<open>10\<^sup>2\<^sup>1\<close> is the integer part of the rounded value, unless it is 0,
  then a point, then three decimals. So 0.0009 gives \<^verbatim>\<open>"< .001"\<close>, 0.042 gives
  \<^verbatim>\<open>".042"\<close> and 0.5 gives \<^verbatim>\<open>".500"\<close>.
\<close>

theorem fmtP_rules:
  "fmtP rt NaN = ''NA'' \<and> fmtP rt PInf = ''NA'' \<and> fmtP rt NInf = ''NA''
   \<and> (p < 1 / 1000 \<longrightarrow> fmtP rt (Fin p) = ''< .001'')
   \<and> (1 / 1000 \<le> p \<longrightarrow> fmtP rt (Fin p) = replace_leading_0 (toFixed rt (Fin p) 3))
   \<and> (1 / 1000 \<le> p \<longrightarrow> p < 10 ^ 21 \<longrightarrow>
        fmtP rt (Fin p) =
          (let n = nat \<lfloor>p * 1000 + 1 / 2\<rfloor>
           in (if n < 1000 then [] else decimal (n div 1000)) @ ''.''
              @ [digit (n div 100 mod 10), digit (n div 10 mod 10), digit (n mod 10)]))
   \<and> fmtP rt (Fin 0.0009) = ''< .001''
   \<and> fmtP rt (Fin 0.042) = ''.042''
   \<and> fmtP rt (Fin 0.5) = ''.500''"
proof -
  have special: "fmtP rt NaN = ''NA'' \<and> fmtP rt PInf = ''NA'' \<and> fmtP rt NInf = ''NA''"
    by (simp add: fmtP_def)
  have small: "p < 1 / 1000 \<longrightarrow> fmtP rt (Fin p) = ''< .001''"
    by (simp add: fmtP_def)
  have other: "1 / 1000 \<le> p \<longrightarrow> fmtP rt (Fin p) = replace_leading_0 (toFixed rt (Fin p) 3)"
    by (simp add: fmtP_def)
  have digits: "1 / 1000 \<le> p \<longrightarrow> p < 10 ^ 21 \<longrightarrow>
        fmtP rt (Fin p) =
          (let n = nat \<lfloor>p * 1000 + 1 / 2\<rfloor>
           in (if n < 1000 then [] else decimal (n div 1000)) @ ''.''
              @ [digit (n div 100 mod 10), digit (n div 10 mod 10), digit (n mod 10)])"
  proof (intro impI)
    assume lo: "1 / 1000 \<le> p" and hi: "p < 10 ^ 21"
    then have p0: "0 \<le> p" by simp
    define n where "n = nat \<lfloor>p * 1000 + 1 / 2\<rfloor>"
    show "fmtP rt (Fin p) =
          (let n = nat \<lfloor>p * 1000 + 1 / 2\<rfloor>
           in (if n < 1000 then [] else decimal (n div 1000)) @ ''.''
              @ [digit (n div 100 mod 10), digit (n div 10 mod 10), digit (n mod 10)])"
    proof (cases "n < 1000")
      case True
      with toFixed3_small[OF p0 hi, of rt] lo show ?thesis
        by (simp add: fmtP_def n_def replace_leading_0_def Let_def)
    next
      case False
      then have "0 < n div 1000" by simp
      with False toFixed3_large[OF p0 hi, of rt] lo show ?thesis
        by (simp add: fmtP_def n_def replace_leading_0_decimal Let_def)
    qed
  qed
  have ex: "fmtP rt (Fin 0.0009) = ''< .001''" "fmtP rt (Fin 0.042) = ''.042''"
    "fmtP rt (Fin 0.5) = ''.500''"
    by (simp_all add: fmtP_def replace_leading_0_def toFixed_def Let_def decimal.simps digit_def)
  from special small other digits ex show ?thesis
    by blast
qed

theorem fmtP_rules_witness:
  "(4 / 10000 :: real) < 1 / 1000 \<and> fmtP sample_runtime (Fin (4 / 10000)) = ''< .001''
   \<and> 1 / 1000 \<le> (9996 / 10000 :: real) \<and> (9996 / 10000 :: real) < 10 ^ 21
   \<and> fmtP sample_runtime (Fin (9996 / 10000)) = ''1.000''
   \<and> 1 / 1000 \<le> (1234 / 100000 :: real) \<and> (1234 / 100000 :: real) < 10 ^ 21
   \<and> fmtP sample_runtime (Fin (1234 / 100000)) = ''.012''"
proof -
  have small: "(4 / 10000 :: real) < 1 / 1000"
    and mid: "1 / 1000 \<le> (9996 / 10000 :: real)" "(9996 / 10000 :: real) < 10 ^ 21"
    and low: "1 / 1000 \<le> (1234 / 100000 :: real)" "(1234 / 100000 :: real) < 10 ^ 21"
    by simp_all
  from small have "fmtP sample_runtime (Fin (4 / 10000)) = ''< .001''"
    using fmtP_rules[of sample_runtime "4 / 10000"] by blast
  moreover from mid have "fmtP sample_runtime (Fin (9996 / 10000)) =
      (let n = nat \<lfloor>(9996 / 10000 :: real) * 1000 + 1 / 2\<rfloor>
       in (if n < 1000 then [] else decimal (n div 1000)) @ ''.''
          @ [digit (n div 100 mod 10), digit (n div 10 mod 10), digit (n mod 10)])"
    using fmtP_rules[of sample_runtime "9996 / 10000"] by blast
  then have "fmtP sample_runtime (Fin (9996 / 10000)) = ''1.000''"
    by (simp add: Let_def decimal.simps digit_def)
  moreover from low have "fmtP sample_runtime (Fin (1234 / 100000)) =
      (let n = nat \<lfloor>(1234 / 100000 :: real) * 1000 + 1 / 2\<rfloor>
       in (if n < 1000 then [] else decimal (n div 1000)) @ ''.''
          @ [digit (n div 100 mod 10), digit (n div 10 mod 10), digit (n mod 10)])"
    using fmtP_rules[of sample_runtime "1234 / 100000"] by blast
  then have "fmtP sample_runtime (Fin (1234 / 100000)) = ''.012''"
    by (simp add: Let_def decimal.simps digit_def)
  ultimately show ?thesis
    using small mid low by blast
qed

section \<open>The sample input, evaluated\<close>

lemma toNumberMaybe_sample:
  "toNumberMaybe sample_runtime ''1'' = Some (Fin 1)"
  "toNumberMaybe sample_runtime ''2'' = Some (Fin 2)"
  "toNumberMaybe sample_runtime '' 2 '' = Some (Fin 2)"
  "toNumberMaybe sample_runtime ''3'' = Some (Fin 3)"
  "toNumberMaybe sample_runtime ''4'' = Some (Fin 4)"
  "toNumberMaybe sample_runtime ''n/a'' = None"
  by (simp_all add: toNumberMaybe_def trim_def is_ws_def sample_runtime_def)

lemma getPaired_sample:
  "getPaired sample_runtime sample_rows ''LVF'' ''RVF'' = ([Fin 1, Fin 2, Fin 3], [Fin 1, Fin 2, Fin 3])"
  "getPaired sample_runtime sample_rows ''LVF'' ''Shifted'' = ([Fin 1, Fin 2, Fin 3], [Fin 2, Fin 3, Fin 4])"
  "getPaired sample_runtime sample_rows ''LVF'' ''LI'' = ([Fin 1, Fin 3], [Fin 1, Fin 2])"
  by (simp_all add: getPaired_def sample_rows_def cell_def toNumberMaybe_sample)

lemma getVector_sample: "getVector sample_runtime sample_rows ''LI'' = [Fin 1, Fin 2]"
  by (simp add: getVector_def sample_rows_def cell_def toNumberMaybe_sample List.map_filter_simps)

lemma getGrouped_sample:
  "getGrouped sample_runtime sample_rows ''LVF'' ''Gender'' ''F'' ''M'' = ([Fin 1], [Fin 2, Fin 3])"
  by (simp add: getGrouped_def sample_rows_def cell_def toNumberMaybe_sample trim_def is_ws_def)

lemma getPoints_sample:
  "getPoints sample_runtime sample_rows ''LVF'' ''RVF'' = [(Fin 1, Fin 1), (Fin 2, Fin 2), (Fin 3, Fin 3)]"
  by (simp add: getPoints_def sample_rows_def cell_def toNumberMaybe_sample)

lemma summarize_123:
  "summarize [Fin 1, Fin 2, Fin 3] = \<lparr>s_n = Fin 3, s_mean = Fin 2, s_sd = Fin 1, s_se = Fin (1 / sqrt 3)\<rparr>"
  by (simp add: summarize_def mean_def sd_def varianceSample_def len_def minus_jsnum_def js_pow_2 Let_def)

lemma summarize_234:
  "summarize [Fin 2, Fin 3, Fin 4] = \<lparr>s_n = Fin 3, s_mean = Fin 3, s_sd = Fin 1, s_se = Fin (1 / sqrt 3)\<rparr>"
  by (simp add: summarize_def mean_def sd_def varianceSample_def len_def minus_jsnum_def js_pow_2 Let_def)

lemma paired_same:
  "pairedTTest [Fin 1, Fin 2, Fin 3] [Fin 1, Fin 2, Fin 3] = \<lparr>paired_t = NaN, paired_df = Fin 2, paired_p = NaN, paired_d = NaN\<rparr>"
  by (simp add: pairedTTest_def summarize_def mean_def sd_def varianceSample_def len_def
      minus_jsnum_def Let_def pTwoSidedFromT_NaN js_pow_2)

lemma p_NInf: "0 < df \<Longrightarrow> pTwoSidedFromT NInf (Fin df) = Fin 0"
  by (simp add: pTwoSidedFromT_def studentTCdf_def regIncompleteBeta_def clamp_def
      strict_eq_def minus_jsnum_def Let_def)

lemma paired_shifted:
  "pairedTTest [Fin 1, Fin 2, Fin 3] [Fin 2, Fin 3, Fin 4] = \<lparr>paired_t = NInf, paired_df = Fin 2, paired_p = Fin 0, paired_d = NInf\<rparr>"
  by (simp add: pairedTTest_def summarize_def mean_def sd_def varianceSample_def len_def
      minus_jsnum_def Let_def p_NInf js_pow_2)

lemma fmt_vals: "fmt rt (Fin 2) = ''2.00''" "fmt rt (Fin 1) = ''1.00''" "fmt rt (Fin 3) = ''3.00''"
  by (simp_all add: fmt_def toFixed_def Let_def decimal.simps digit_def)

text \<open>
  C2. With rows loaded, each analysis whose filtered input is below its minimum size
  (fewer than 3 pairs, fewer than 3 values, a group of fewer than 2 values, fewer than
  4 points) ends in the error of that branch; the independent branch first asks for
  two different groups, and ends in an error without them as well. A result of one of
  the four kinds is only ever built from an input of at least the minimum size: the
  test is not computed on less.
\<close>

theorem insufficient_data_signalled:
  "(rows st \<noteq> [] \<longrightarrow> analysis st = A_paired \<longrightarrow>
      length (fst (getPaired rt (rows st) (pairedA st) (pairedB st))) < 3 \<longrightarrow>
      output_memo rt st = Kind_error ''Not enough paired rows.'')
   \<and> (rows st \<noteq> [] \<longrightarrow> analysis st = A_onesample \<longrightarrow>
      length (getVector rt (rows st) (oneVar st)) < 3 \<longrightarrow>
      output_memo rt st = Kind_error ''Not enough numeric rows.'')
   \<and> (rows st \<noteq> [] \<longrightarrow> analysis st = A_independent \<longrightarrow>
      groupVar st = [] \<or> groupA st = [] \<or> groupB st = [] \<or> groupA st = groupB st \<longrightarrow>
      output_memo rt st = Kind_error ''Select two different groups.'')
   \<and> (rows st \<noteq> [] \<longrightarrow> analysis st = A_independent \<longrightarrow>
      groupVar st \<noteq> [] \<longrightarrow> groupA st \<noteq> [] \<longrightarrow> groupB st \<noteq> [] \<longrightarrow>
      groupA st \<noteq> groupB st \<longrightarrow>
      length (fst (getGrouped rt (rows st) (groupOutcome st) (groupVar st)
                     (groupA st) (groupB st))) < 2
      \<or> length (snd (getGrouped rt (rows st) (groupOutcome st) (groupVar st)
                     (groupA st) (groupB st))) < 2 \<longrightarrow>
      output_memo rt st = Kind_error ''Each group needs at least 2 observations.'')
   \<and> (rows st \<noteq> [] \<longrightarrow> analysis st = A_correlation \<longrightarrow>
      length (getPoints rt (rows st) (corrX st) (corrY st)) < 4 \<longrightarrow>
      output_memo rt st = Kind_error ''Not enough paired rows for correlation.'')
   \<and> (\<forall>barData apa. output_memo rt st = Kind_paired barData apa \<longrightarrow>
      3 \<le> length (fst (getPaired rt (rows st) (pairedA st) (pairedB st))))
   \<and> (\<forall>apa. output_memo rt st = Kind_onesample apa \<longrightarrow>
      3 \<le> length (getVector rt (rows st) (oneVar st)))
   \<and> (\<forall>barData apa. output_memo rt st = Kind_independent barData apa \<longrightarrow>
      2 \<le> length (fst (getGrouped rt (rows st) (groupOutcome st) (groupVar st)
                     (groupA st) (groupB st)))
      \<and> 2 \<le> length (snd (getGrouped rt (rows st) (groupOutcome st) (groupVar st)
                     (groupA st) (groupB st))))
   \<and> (\<forall>pts apa. output_memo rt st = Kind_correlation pts apa \<longrightarrow>
      4 \<le> length (getPoints rt (rows st) (corrX st) (corrY st)))"
  by (cases "analysis st")
     (auto simp: output_memo_def output_try_def Let_def split: prod.splits if_splits)

theorem insufficient_data_signalled_witness:
  "rows (sample_state A_paired ''LI'') \<noteq> []
   \<and> length (fst (getPaired sample_runtime sample_rows ''LVF'' ''LI'')) < 3
   \<and> output_memo sample_runtime (sample_state A_paired ''LI'')
       = Kind_error ''Not enough paired rows.''
   \<and> length (getVector sample_runtime sample_rows ''LI'') < 3
   \<and> output_memo sample_runtime (sample_state A_onesample ''LI'')
       = Kind_error ''Not enough numeric rows.''
   \<and> length (fst (getGrouped sample_runtime sample_rows ''LVF'' ''Gender'' ''F'' ''M'')) < 2
   \<and> output_memo sample_runtime (sample_state A_independent ''LI'')
       = Kind_error ''Each group needs at least 2 observations.''
   \<and> length (getPoints sample_runtime sample_rows ''LVF'' ''RVF'') < 4
   \<and> output_memo sample_runtime (sample_state A_correlation ''LI'')
       = Kind_error ''Not enough paired rows for correlation.''"
  using insufficient_data_signalled[of "sample_state A_paired ''LI''" sample_runtime]
    insufficient_data_signalled[of "sample_state A_onesample ''LI''" sample_runtime]
    insufficient_data_signalled[of "sample_state A_independent ''LI''" sample_runtime]
    insufficient_data_signalled[of "sample_state A_correlation ''LI''" sample_runtime]
  by (simp add: sample_state_def getPaired_sample getVector_sample getGrouped_sample
      getPoints_sample)
    (simp add: sample_rows_def)

text \<open>
  C1 (what the code does). The sentence of the paired analysis writes \<^verbatim>\<open>t\<close> and \<^verbatim>\<open>d\<close>
  with \<^verbatim>\<open>toFixed(2)\<close> and not with \<^verbatim>\<open>fmt\<close>: on two equal columns it reads
  \<^verbatim>\<open>t(2) = NaN\<close> and \<^verbatim>\<open>d = NaN\<close>, and on two columns one apart it reads
  \<^verbatim>\<open>t(2) = -Infinity\<close> and \<^verbatim>\<open>d = -Infinity\<close>.
\<close>

theorem statistic_printed_unmasked:
  "output_memo sample_runtime (sample_state A_paired ''RVF'') =
     Kind_paired
       [\<lparr>bar_name = ''LVF'', bar_Mean = Fin 2, bar_SE = Fin (1 / sqrt 3)\<rparr>,
        \<lparr>bar_name = ''RVF'', bar_Mean = Fin 2, bar_SE = Fin (1 / sqrt 3)\<rparr>]
       ''A paired-samples t-test compared LVF (M = 2.00, SD = 1.00) and RVF (M = 2.00, SD = 1.00). The analysis yielded t(2) = NaN, p = NA, d = NaN.''
   \<and> output_memo sample_runtime (sample_state A_paired ''Shifted'') =
     Kind_paired
       [\<lparr>bar_name = ''LVF'', bar_Mean = Fin 2, bar_SE = Fin (1 / sqrt 3)\<rparr>,
        \<lparr>bar_name = ''Shifted'', bar_Mean = Fin 3, bar_SE = Fin (1 / sqrt 3)\<rparr>]
       ''A paired-samples t-test compared LVF (M = 2.00, SD = 1.00) and Shifted (M = 3.00, SD = 1.00). The analysis yielded t(2) = -Infinity, p = < .001, d = -Infinity.''"
proof -
  have rows: "rows (sample_state A_paired bCol) \<noteq> []" for bCol
    by (simp add: sample_state_def sample_rows_def)
  have ts: "rt_ToString sample_runtime (Fin 2) = ''2''"
    by (simp add: sample_runtime_def)
  show ?thesis
    using rows
    by (simp add: output_memo_def output_try_def sample_state_def getPaired_sample
        summarize_123 summarize_234 paired_same paired_shifted apa_paired_def fmt_vals ts
        fmtP_def toFixed_def)
qed

lemma oneSampleT_constant:
  "oneSampleT [Fin 5, Fin 5, Fin 5] (Fin 5) =
     \<lparr>onesample_t = NaN, onesample_df = Fin 2, onesample_p = NaN, onesample_d = NaN,
      onesample_s = \<lparr>s_n = Fin 3, s_mean = Fin 5, s_sd = Fin 0, s_se = Fin 0\<rparr>\<rparr>"
  by (simp add: oneSampleT_def summarize_def mean_def sd_def varianceSample_def len_def
      Let_def pTwoSidedFromT_NaN js_pow_2)

lemma pTwoSidedFromT_df_NaN: "pTwoSidedFromT t NaN = NaN"
  by (simp add: pTwoSidedFromT_def studentTCdf_def Let_def regIncompleteBeta_NaN)

lemma welchTTest_constant:
  "welch_t (welchTTest [Fin 1, Fin 1] [Fin 2, Fin 2]) = NInf"
  "welch_df (welchTTest [Fin 1, Fin 1] [Fin 2, Fin 2]) = NaN"
  "welch_p (welchTTest [Fin 1, Fin 1] [Fin 2, Fin 2]) = NaN"
  "welch_g (welchTTest [Fin 1, Fin 1] [Fin 2, Fin 2]) = NInf"
  by (simp_all add: welchTTest_def summarize_def mean_def sd_def varianceSample_def len_def
      Let_def pTwoSidedFromT_df_NaN js_pow_2)

lemma pearsonCorrelation_constant:
  "pearsonCorrelation [Fin 1, Fin 1, Fin 1, Fin 1] [Fin 1, Fin 2, Fin 3, Fin 4] =
     \<lparr>pearson_r = NaN, pearson_t = NaN, pearson_df = Fin 2, pearson_p = NaN\<rparr>"
  by (simp add: pearsonCorrelation_def mean_def len_def Let_def pTwoSidedFromT_NaN)

text \<open>
  The sentences of the other three analyses write \<^verbatim>\<open>t\<close>, \<^verbatim>\<open>d\<close>, \<^verbatim>\<open>g\<close> and \<^verbatim>\<open>r\<close> in the
  same way: a constant vector against its own value, two constant groups, a constant
  first variable.
\<close>

lemma other_sentences_unmasked:
  "apa_onesample rt ''LI'' (Fin 5) (oneSampleT [Fin 5, Fin 5, Fin 5] (Fin 5)) =
     ''A one-sample t-test evaluated whether LI differed from '' @ rt_ToString rt (Fin 5)
     @ ''. The analysis yielded t('' @ rt_ToString rt (Fin 2) @ '') = NaN, p = NA, d = NaN.''"
  "\<exists>s. apa_independent rt ''LI'' ''f'' ''m'' (welchTTest [Fin 1, Fin 1] [Fin 2, Fin 2]) =
     s @ ''). The analysis yielded t(NaN) = -Infinity, p = NA, g = -Infinity.''"
  "apa_correlation rt ''Age'' ''LI''
     (pearsonCorrelation [Fin 1, Fin 1, Fin 1, Fin 1] [Fin 1, Fin 2, Fin 3, Fin 4]) =
     ''A Pearson correlation examined the association between Age and LI. The correlation was r(''
     @ rt_ToString rt (Fin 2) @ '') = NaN, p = NA.''"
  by (simp_all add: apa_onesample_def apa_independent_def apa_correlation_def
      oneSampleT_constant welchTTest_constant pearsonCorrelation_constant toFixed_def fmtP_def)

end
